theory Spec2Isabelle
  imports Complex_Main
begin

section \<open>The pebble predictor (PP.py) over the reals\<close>

text \<open>
  The program computes with numpy float64 arrays. The embedding takes every array as a
  list of reals and every float operation as the exact operation on reals: rounding,
  overflow and the IEEE values Inf and NaN are not part of it. Where numpy would give Inf
  or NaN (a division by zero, a square root or a fractional power of a negative number),
  HOL's total functions give some real instead (\<open>x / 0 = 0\<close>), so the statements about
  values below carry the hypotheses under which no such operation happens, or say
  explicitly which divisors are nonzero.
\<close>

subsection \<open>Inputs\<close>

text \<open>
  The physical constants come from astropy (\<open>c.k_B.cgs.value\<close>, \<open>c.m_p.cgs.value\<close>,
  \<open>c.G.cgs.value\<close>, \<open>c.au.cgs.value\<close>), which is not part of the repository: they are a
  parameter of the model.
\<close>

record constants =
  k_b :: real
  m_p :: real
  Grav :: real
  au :: real

text \<open>The keyword arguments \<open>pars\<close>; every key the function reads is a field.\<close>

record pars =
  rgrid :: "real list"
  tgrid :: "real list"
  Mstar :: real
  SigmaGas :: "real list"
  SigmaDust :: "real list"
  T :: "real list"
  alpha :: real
  vfrag :: real
  rhop :: real

datatype error = IndexError | ValueError

subsection \<open>Elementwise array operations\<close>

definition arr_add :: "real list \<Rightarrow> real list \<Rightarrow> real list" where
  "arr_add xs ys = map2 (+) xs ys"

definition arr_sub :: "real list \<Rightarrow> real list \<Rightarrow> real list" where
  "arr_sub xs ys = map2 (-) xs ys"

definition arr_mul :: "real list \<Rightarrow> real list \<Rightarrow> real list" where
  "arr_mul xs ys = map2 (*) xs ys"

definition arr_div :: "real list \<Rightarrow> real list \<Rightarrow> real list" where
  "arr_div xs ys = map2 (/) xs ys"

definition arr_minimum :: "real list \<Rightarrow> real list \<Rightarrow> real list" where
  "arr_minimum xs ys = map2 min xs ys"

definition arr_maximum :: "real list \<Rightarrow> real list \<Rightarrow> real list" where
  "arr_maximum xs ys = map2 max xs ys"

text \<open>
  Modelled from the spec: numpy's \<open>interp\<close> is library code. It is the clamped linear
  interpolation of the spec (section 4.1): left of the first node the first value, right
  of the last node the last value, between two nodes the line through their values.
  numpy defines it for increasing nodes only; the scan below finds the first node beyond
  \<open>x\<close>.
\<close>

fun interp_scan :: "real \<Rightarrow> real list \<Rightarrow> real list \<Rightarrow> real" where
  "interp_scan x (x0 # x1 # xs) (f0 # f1 # fs) =
     (if x < x1 then (f1 - f0) / (x1 - x0) * (x - x0) + f0
      else interp_scan x (x1 # xs) (f1 # fs))"
| "interp_scan x xs fs = last fs"

definition interp :: "real \<Rightarrow> real list \<Rightarrow> real list \<Rightarrow> real" where
  "interp x xp fp =
     (if x < hd xp then hd fp
      else if last xp < x then last fp
      else interp_scan x xp fp)"

subsection \<open>Static disk structure (lines 38 to 55, 63 and 64)\<close>

definition a0 :: real where
  "a0 = 0.0001"

definition fff :: real where
  "fff = 30"

definition cs :: "constants \<Rightarrow> pars \<Rightarrow> real list" where
  "cs c p = map (\<lambda>Ti. sqrt (k_b c * Ti / (2.3 * m_p c))) (T p)"

definition OmegaK :: "constants \<Rightarrow> pars \<Rightarrow> real list" where
  "OmegaK c p = map (\<lambda>r. sqrt (Grav c * Mstar p / r ^ 3)) (rgrid p)"

definition rhog :: "constants \<Rightarrow> pars \<Rightarrow> real list" where
  "rhog c p =
     arr_div (arr_mul (SigmaGas p) (OmegaK c p)) (map (\<lambda>x. sqrt (2 * pi) * x) (cs c p))"

definition pg :: "constants \<Rightarrow> pars \<Rightarrow> real list" where
  "pg c p = arr_mul (rhog c p) (map (\<lambda>x. x ^ 2) (cs c p))"

text \<open>
  The cell interfaces: \<open>np.zeros(N + 1)\<close>, then the first entry, the slice \<open>[1:-1]\<close> and
  the last entry are assigned. The function reaches this point only with at least two
  radii (see \<open>pebble_predictor\<close>), where \<open>rgrid[-1]\<close> and \<open>rgrid[-2]\<close> are the entries
  \<open>N - 1\<close> and \<open>N - 2\<close>.
\<close>

definition rInt :: "pars \<Rightarrow> real list" where
  "rInt p =
     (let r = rgrid p;
          n = length r;
          z0 = replicate (n + 1) (0::real);
          z1 = z0[0 := 1.5 * r ! 0 - 0.5 * r ! 1];
          z2 = take 1 z1 @ map (\<lambda>x. 0.5 * x) (arr_add (drop 1 r) (butlast r)) @ drop n z1;
          z3 = z2[n := 1.5 * r ! (n - 1) - 0.5 * r ! (n - 2)]
      in z3)"

definition dr :: "pars \<Rightarrow> real list" where
  "dr p = arr_sub (drop 1 (rInt p)) (butlast (rInt p))"

definition pgInt :: "constants \<Rightarrow> pars \<Rightarrow> real list" where
  "pgInt c p = map (\<lambda>x. interp x (rgrid p) (pg c p)) (rInt p)"

definition eta :: "constants \<Rightarrow> pars \<Rightarrow> real list" where
  "eta c p =
     arr_div
       (arr_div (arr_sub (drop 1 (pgInt c p)) (butlast (pgInt c p))) (dr p))
       (arr_mul (arr_mul (map (\<lambda>x. 2 * x) (rhog c p)) (map (\<lambda>x. x ^ 2) (OmegaK c p)))
          (rgrid p))"

definition stfrag :: "constants \<Rightarrow> pars \<Rightarrow> real list" where
  "stfrag c p = map (\<lambda>x. 0.37 * vfrag p ^ 2 / (3 * alpha p * x ^ 2)) (cs c p)"

definition stdf :: "constants \<Rightarrow> pars \<Rightarrow> real list" where
  "stdf c p =
     map (\<lambda>x. 0.37 * vfrag p / x)
       (arr_mul (arr_mul (map (\<lambda>e. 2 * \<bar>e\<bar>) (eta c p)) (OmegaK c p)) (rgrid p))"

definition st0 :: "pars \<Rightarrow> real list" where
  "st0 p = map (\<lambda>sg. 0.5 * pi * a0 * rhop p / sg) (SigmaGas p)"

definition Z0 :: "pars \<Rightarrow> real list" where
  "Z0 p = arr_div (SigmaDust p) (SigmaGas p)"

text \<open>
  The exponents are the literals \<open>0.3333\<close> and \<open>-0.3333\<close> of the source. A float power
  with a fractional exponent is \<open>powr\<close> on a positive base.
\<close>

definition tgrowth :: "constants \<Rightarrow> pars \<Rightarrow> real list" where
  "tgrowth c p =
     map (\<lambda>x. 1 / x)
       (arr_mul
          (arr_mul (map (\<lambda>z. (alpha p / 0.0001) powr 0.3333 * z) (Z0 p)) (OmegaK c p))
          (map (\<lambda>r. (r / au c) powr (- 0.3333)) (rgrid p)))"

subsection \<open>The evolving fields and the initial condition (lines 58 to 69)\<close>

text \<open>
  The arrays the function fills, and the local \<open>vv\<close>, which every iteration overwrites.
  A matrix is the list of its rows.
\<close>

record pp_state =
  st :: "real list list"
  flux :: "real list list"
  massout :: "real list list"
  vv :: "real list"

definition zeros :: "nat \<Rightarrow> nat \<Rightarrow> real list list" where
  "zeros m n = replicate m (replicate n 0)"

text \<open>The term summed for \<open>massout[0, ir]\<close>: \<open>2 pi rgrid[ir:] dr[ir:] SigmaDust[ir:]\<close>.\<close>

definition mass_terms :: "pars \<Rightarrow> nat \<Rightarrow> real list" where
  "mass_terms p ir =
     arr_mul (arr_mul (map (\<lambda>r. 2 * pi * r) (drop ir (rgrid p))) (drop ir (dr p)))
       (drop ir (SigmaDust p))"

definition massout_init :: "pars \<Rightarrow> real list list \<Rightarrow> real list list" where
  "massout_init p m =
     foldl (\<lambda>m ir. m[0 := (m ! 0)[ir := sum_list (mass_terms p ir)]]) m
       [0..<length (rgrid p)]"

definition drift_velocity :: "constants \<Rightarrow> pars \<Rightarrow> real list \<Rightarrow> real list" where
  "drift_velocity c p s =
     arr_div
       (arr_mul
          (arr_mul (arr_mul (map (\<lambda>e. 2 * \<bar>e\<bar>) (eta c p)) (OmegaK c p)) (rgrid p)) s)
       (map (\<lambda>x. 1 + x ^ 2) s)"

definition initial :: "constants \<Rightarrow> pars \<Rightarrow> pp_state" where
  "initial c p =
     (let m = length (tgrid p);
          n = length (rgrid p);
          massout1 = massout_init p (zeros m n);
          st1 = (zeros m n)[0 := st0 p];
          vv1 = drift_velocity c p (st1 ! 0);
          flux1 = (zeros m n)[0 :=
                    arr_mul (arr_mul (map (\<lambda>r. 2 * pi * r) (rgrid p)) vv1) (SigmaDust p)]
      in \<lparr> st = st1, flux = flux1, massout = massout1, vv = vv1 \<rparr>)"

subsection \<open>The time loop (lines 72 to 82)\<close>

definition step :: "constants \<Rightarrow> pars \<Rightarrow> pp_state \<Rightarrow> nat \<Rightarrow> pp_state" where
  "step c p s it =
     (let massout1 = (massout s)[it :=
            arr_sub (massout s ! (it - 1))
              (map (\<lambda>f. f * (tgrid p ! it - tgrid p ! (it - 1))) (flux s ! (it - 1)))];
          Z = arr_mul (Z0 p) (arr_div (massout1 ! it) (massout1 ! 0));
          stini = arr_mul (st0 p) (map (\<lambda>tg. exp (tgrid p ! it / tg)) (tgrowth c p));
          stdrift = map (\<lambda>x. x / fff) (arr_div Z (map abs (eta c p)));
          st1 = (st s)[it := arr_minimum (arr_minimum (stfrag c p) (stdf c p)) stini];
          st2 = st1[it := arr_minimum (st1 ! it) stdrift];
          st3 = st2[it := arr_maximum (st2 ! it) (st0 p)];
          vv1 = drift_velocity c p (st3 ! it);
          vv2 = arr_minimum vv1 (map (\<lambda>x. x / fff) (arr_div (rgrid p) (tgrowth c p)));
          flux1 = (flux s)[it :=
            arr_mul
              (arr_mul (arr_mul (map (\<lambda>r. 2 * pi * r) (rgrid p)) vv2) (SigmaDust p))
              (arr_div (massout1 ! it) (massout1 ! 0))]
      in \<lparr> st = st3, flux = flux1, massout = massout1, vv = vv2 \<rparr>)"

text \<open>\<open>for it in range(1, n)\<close>, from the state \<open>s\<close>.\<close>

definition time_loop :: "constants \<Rightarrow> pars \<Rightarrow> pp_state \<Rightarrow> nat \<Rightarrow> pp_state" where
  "time_loop c p s n = foldl (step c p) s [1..<n]"

definition run :: "constants \<Rightarrow> pars \<Rightarrow> pp_state" where
  "run c p = time_loop c p (initial c p) (length (tgrid p))"

text \<open>
  The definitions up to here are the arrays of the function when every per-radius input
  has the radial grid's length: every elementwise operation then pairs arrays of equal
  length. The function itself follows, statement by statement, with numpy's broadcasting
  and its index errors. On inputs of matching lengths it returns the arrays above
  (lemma \<open>pebble_predictor_returns\<close>).
\<close>

subsection \<open>numpy's indexing and broadcasting\<close>

text \<open>
  An array expression either raises or has a value. Statements run in sequence: the first
  error ends the run. Float operations never raise: numpy returns Inf or NaN with a
  warning.
\<close>

definition bind_err :: "error + 'a \<Rightarrow> ('a \<Rightarrow> error + 'b) \<Rightarrow> error + 'b" where
  "bind_err m f = (case m of Inl e \<Rightarrow> Inl e | Inr x \<Rightarrow> f x)"

text \<open>
  An elementwise operation on two one-dimensional arrays: equal lengths go entry by
  entry, an array of one entry is stretched to the length of the other, and any other
  pair of lengths raises ValueError (operands could not be broadcast together).
\<close>

definition broadcast ::
  "(real \<Rightarrow> real \<Rightarrow> real) \<Rightarrow> real list \<Rightarrow> real list \<Rightarrow> error + real list" where
  "broadcast f xs ys =
     (if length xs = length ys then Inr (map2 f xs ys)
      else if length xs = 1 then Inr (map (f (hd xs)) ys)
      else if length ys = 1 then Inr (map (\<lambda>x. f x (hd ys)) xs)
      else Inl ValueError)"

text \<open>The operands are evaluated from left to right, then the operation is applied.\<close>

definition lift2 ::
  "(real \<Rightarrow> real \<Rightarrow> real) \<Rightarrow> error + real list \<Rightarrow> error + real list \<Rightarrow> error + real list"
  where
  "lift2 f a b = bind_err a (\<lambda>xs. bind_err b (\<lambda>ys. broadcast f xs ys))"

definition np_add :: "error + real list \<Rightarrow> error + real list \<Rightarrow> error + real list" where
  "np_add = lift2 (+)"

definition np_sub :: "error + real list \<Rightarrow> error + real list \<Rightarrow> error + real list" where
  "np_sub = lift2 (-)"

definition np_mul :: "error + real list \<Rightarrow> error + real list \<Rightarrow> error + real list" where
  "np_mul = lift2 (*)"

definition np_div :: "error + real list \<Rightarrow> error + real list \<Rightarrow> error + real list" where
  "np_div = lift2 (/)"

definition np_minimum :: "error + real list \<Rightarrow> error + real list \<Rightarrow> error + real list" where
  "np_minimum = lift2 min"

definition np_maximum :: "error + real list \<Rightarrow> error + real list \<Rightarrow> error + real list" where
  "np_maximum = lift2 max"

text \<open>An operation on one array, or on an array and a scalar.\<close>

definition np_map :: "(real \<Rightarrow> real) \<Rightarrow> error + real list \<Rightarrow> error + real list" where
  "np_map f a = bind_err a (\<lambda>xs. Inr (map f xs))"

text \<open>\<open>xs[i]\<close>: a negative index counts from the end; out of range raises IndexError.\<close>

definition np_getitem :: "'a list \<Rightarrow> int \<Rightarrow> error + 'a" where
  "np_getitem xs i =
     (let n = int (length xs); j = (if i < 0 then n + i else i)
      in if 0 \<le> j \<and> j < n then Inr (xs ! nat j) else Inl IndexError)"

text \<open>\<open>xs[i] = v\<close> for a scalar \<open>v\<close>.\<close>

definition np_setitem :: "real list \<Rightarrow> int \<Rightarrow> real \<Rightarrow> error + real list" where
  "np_setitem xs i v =
     (let n = int (length xs); j = (if i < 0 then n + i else i)
      in if 0 \<le> j \<and> j < n then Inr (xs[nat j := v]) else Inl IndexError)"

text \<open>
  \<open>xs[1:-1] = v\<close>: the slice has the entries from 1 to the last but one (none when \<open>xs\<close>
  has fewer than three entries); the value must have as many entries, or one.
\<close>

definition np_set_inner :: "real list \<Rightarrow> real list \<Rightarrow> error + real list" where
  "np_set_inner xs v =
     (let k = length xs - 2
      in if length v = k then Inr (take 1 xs @ v @ drop (max 1 (length xs - 1)) xs)
         else if length v = 1
           then Inr (take 1 xs @ replicate k (hd v) @ drop (max 1 (length xs - 1)) xs)
         else Inl ValueError)"

text \<open>\<open>m[i, j] = v\<close> for a scalar \<open>v\<close>, with indices that are not negative.\<close>

definition np_setitem2 :: "real list list \<Rightarrow> nat \<Rightarrow> nat \<Rightarrow> real \<Rightarrow> error + real list list" where
  "np_setitem2 m i j v =
     (if i < length m \<and> j < length (m ! i) then Inr (m[i := (m ! i)[j := v]])
      else Inl IndexError)"

text \<open>\<open>m[i, :]\<close> and \<open>m[i, :] = v\<close>; the value must have the length of the row, or one entry.\<close>

definition np_getrow :: "real list list \<Rightarrow> nat \<Rightarrow> error + real list" where
  "np_getrow m i = (if i < length m then Inr (m ! i) else Inl IndexError)"

definition np_setrow :: "real list list \<Rightarrow> nat \<Rightarrow> real list \<Rightarrow> error + real list list" where
  "np_setrow m i v =
     (if \<not> i < length m then Inl IndexError
      else if length v = length (m ! i) then Inr (m[i := v])
      else if length v = 1 then Inr (m[i := replicate (length (m ! i)) (hd v)])
      else Inl ValueError)"

text \<open>
  \<open>np.interp(x, xp, fp)\<close>: ValueError when there are no nodes or when the values are not
  as many as the nodes.
\<close>

definition np_interp :: "real list \<Rightarrow> real list \<Rightarrow> real list \<Rightarrow> error + real list" where
  "np_interp xs xp fp =
     (if xp = [] \<or> length fp \<noteq> length xp then Inl ValueError
      else Inr (map (\<lambda>x. interp x xp fp) xs))"

subsection \<open>The function, statement by statement\<close>

text \<open>Lines 42 and 43.\<close>

definition rhog_np :: "constants \<Rightarrow> pars \<Rightarrow> error + real list" where
  "rhog_np c p =
     np_div (np_mul (Inr (SigmaGas p)) (Inr (OmegaK c p)))
       (Inr (map (\<lambda>x. sqrt (2 * pi) * x) (cs c p)))"

definition pg_np :: "constants \<Rightarrow> pars \<Rightarrow> real list \<Rightarrow> error + real list" where
  "pg_np c p rhog1 = np_mul (Inr rhog1) (Inr (map (\<lambda>x. x ^ 2) (cs c p)))"

text \<open>Lines 45 to 48.\<close>

definition rInt_np :: "pars \<Rightarrow> error + real list" where
  "rInt_np p =
     (let r = rgrid p;
          z0 = replicate (length r + 1) (0::real)
      in bind_err (np_getitem r 0) (\<lambda>r0.
         bind_err (np_getitem r 1) (\<lambda>r1.
         bind_err (np_setitem z0 0 (1.5 * r0 - 0.5 * r1)) (\<lambda>z1.
         bind_err (np_map (\<lambda>x. 0.5 * x) (np_add (Inr (drop 1 r)) (Inr (butlast r)))) (\<lambda>mid.
         bind_err (np_set_inner z1 mid) (\<lambda>z2.
         bind_err (np_getitem r (- 1)) (\<lambda>rl.
         bind_err (np_getitem r (- 2)) (\<lambda>rk.
         np_setitem z2 (- 1) (1.5 * rl - 0.5 * rk)))))))))"

text \<open>Lines 49 to 51.\<close>

definition dr_np :: "real list \<Rightarrow> error + real list" where
  "dr_np rInt1 = np_sub (Inr (drop 1 rInt1)) (Inr (butlast rInt1))"

definition eta_np ::
  "constants \<Rightarrow> pars \<Rightarrow> real list \<Rightarrow> real list \<Rightarrow> real list \<Rightarrow> error + real list" where
  "eta_np c p pgInt1 dr1 rhog1 =
     np_div
       (np_div (np_sub (Inr (drop 1 pgInt1)) (Inr (butlast pgInt1))) (Inr dr1))
       (np_mul (np_mul (Inr (map (\<lambda>x. 2 * x) rhog1)) (Inr (map (\<lambda>x. x ^ 2) (OmegaK c p))))
          (Inr (rgrid p)))"

text \<open>Line 54.\<close>

definition stdf_np :: "constants \<Rightarrow> pars \<Rightarrow> real list \<Rightarrow> error + real list" where
  "stdf_np c p eta1 =
     np_map (\<lambda>x. 0.37 * vfrag p / x)
       (np_mul (np_mul (Inr (map (\<lambda>e. 2 * \<bar>e\<bar>) eta1)) (Inr (OmegaK c p))) (Inr (rgrid p)))"

text \<open>Lines 63 and 64.\<close>

definition Z0_np :: "pars \<Rightarrow> error + real list" where
  "Z0_np p = np_div (Inr (SigmaDust p)) (Inr (SigmaGas p))"

definition tgrowth_np :: "constants \<Rightarrow> pars \<Rightarrow> real list \<Rightarrow> error + real list" where
  "tgrowth_np c p Z01 =
     np_map (\<lambda>x. 1 / x)
       (np_mul
          (np_mul (Inr (map (\<lambda>z. (alpha p / 0.0001) powr 0.3333 * z) Z01)) (Inr (OmegaK c p)))
          (Inr (map (\<lambda>r. (r / au c) powr (- 0.3333)) (rgrid p))))"

text \<open>
  The arrays that do not change in the loop, as far as the later statements read them.
\<close>

record static =
  s_dr :: "real list"
  s_eta :: "real list"
  s_stfrag :: "real list"
  s_stdf :: "real list"
  s_st0 :: "real list"
  s_Z0 :: "real list"
  s_tgrowth :: "real list"

definition static_np :: "constants \<Rightarrow> pars \<Rightarrow> error + static" where
  "static_np c p =
     bind_err (rhog_np c p) (\<lambda>rhog1.
     bind_err (pg_np c p rhog1) (\<lambda>pg1.
     bind_err (rInt_np p) (\<lambda>rInt1.
     bind_err (dr_np rInt1) (\<lambda>dr1.
     bind_err (np_interp rInt1 (rgrid p) pg1) (\<lambda>pgInt1.
     bind_err (eta_np c p pgInt1 dr1 rhog1) (\<lambda>eta1.
     bind_err (stdf_np c p eta1) (\<lambda>stdf1.
     bind_err (Z0_np p) (\<lambda>Z01.
     bind_err (tgrowth_np c p Z01) (\<lambda>tgrowth1.
     Inr \<lparr> s_dr = dr1, s_eta = eta1, s_stfrag = stfrag c p, s_stdf = stdf1,
           s_st0 = st0 p, s_Z0 = Z01, s_tgrowth = tgrowth1 \<rparr>)))))))))"

text \<open>Lines 65 and 66: the sum is evaluated, then stored.\<close>

definition massout_init_np :: "pars \<Rightarrow> static \<Rightarrow> real list list \<Rightarrow> error + real list list" where
  "massout_init_np p S m =
     foldl
       (\<lambda>acc ir. bind_err acc (\<lambda>m1.
          bind_err
            (np_mul
              (np_mul (Inr (map (\<lambda>r. 2 * pi * r) (drop ir (rgrid p)))) (Inr (drop ir (s_dr S))))
              (Inr (drop ir (SigmaDust p))))
            (\<lambda>terms. np_setitem2 m1 0 ir (sum_list terms))))
       (Inr m) [0..<length (rgrid p)]"

text \<open>Lines 68 and 80: the drift velocity of a row of Stokes numbers.\<close>

definition drift_velocity_np ::
  "constants \<Rightarrow> pars \<Rightarrow> static \<Rightarrow> real list \<Rightarrow> error + real list" where
  "drift_velocity_np c p S row =
     np_div
       (np_mul
          (np_mul
             (np_mul (Inr (map (\<lambda>e. 2 * \<bar>e\<bar>) (s_eta S))) (Inr (OmegaK c p)))
             (Inr (rgrid p)))
          (Inr row))
       (Inr (map (\<lambda>x. 1 + x ^ 2) row))"

text \<open>Lines 58 to 69.\<close>

definition initial_np :: "constants \<Rightarrow> pars \<Rightarrow> static \<Rightarrow> error + pp_state" where
  "initial_np c p S =
     (let m = length (tgrid p);
          n = length (rgrid p)
      in bind_err (massout_init_np p S (zeros m n)) (\<lambda>massout1.
         bind_err (np_setrow (zeros m n) 0 (s_st0 S)) (\<lambda>st1.
         bind_err (np_getrow st1 0) (\<lambda>row.
         bind_err (drift_velocity_np c p S row) (\<lambda>vv1.
         bind_err
           (np_mul (np_mul (Inr (map (\<lambda>r. 2 * pi * r) (rgrid p))) (Inr vv1))
             (Inr (SigmaDust p)))
           (\<lambda>frow.
         bind_err (np_setrow (zeros m n) 0 frow) (\<lambda>flux1.
         Inr \<lparr> st = st1, flux = flux1, massout = massout1, vv = vv1 \<rparr>)))))))"

text \<open>Lines 73 to 82, for one \<open>it\<close>.\<close>

definition step_np :: "constants \<Rightarrow> pars \<Rightarrow> static \<Rightarrow> pp_state \<Rightarrow> nat \<Rightarrow> error + pp_state" where
  "step_np c p S s it =
     bind_err (np_getrow (massout s) (it - 1)) (\<lambda>mprev.
     bind_err (np_getrow (flux s) (it - 1)) (\<lambda>fprev.
     bind_err (np_getitem (tgrid p) (int it)) (\<lambda>t1.
     bind_err (np_getitem (tgrid p) (int it - 1)) (\<lambda>t0.
     bind_err (np_sub (Inr mprev) (Inr (map (\<lambda>f. f * (t1 - t0)) fprev))) (\<lambda>mrow.
     bind_err (np_setrow (massout s) it mrow) (\<lambda>massout1.
     bind_err (np_getrow massout1 it) (\<lambda>mit.
     bind_err (np_getrow massout1 0) (\<lambda>m0.
     bind_err (np_mul (Inr (s_Z0 S)) (np_div (Inr mit) (Inr m0))) (\<lambda>Z.
     bind_err (np_mul (Inr (s_st0 S)) (Inr (map (\<lambda>tg. exp (t1 / tg)) (s_tgrowth S)))) (\<lambda>stini.
     bind_err (np_map (\<lambda>x. x / fff) (np_div (Inr Z) (Inr (map abs (s_eta S))))) (\<lambda>stdrift.
     bind_err (np_minimum (np_minimum (Inr (s_stfrag S)) (Inr (s_stdf S))) (Inr stini)) (\<lambda>r1.
     bind_err (np_setrow (st s) it r1) (\<lambda>st1.
     bind_err (np_getrow st1 it) (\<lambda>row1.
     bind_err (np_minimum (Inr row1) (Inr stdrift)) (\<lambda>r2.
     bind_err (np_setrow st1 it r2) (\<lambda>st2.
     bind_err (np_getrow st2 it) (\<lambda>row2.
     bind_err (np_maximum (Inr row2) (Inr (s_st0 S))) (\<lambda>r3.
     bind_err (np_setrow st2 it r3) (\<lambda>st3.
     bind_err (np_getrow st3 it) (\<lambda>row3.
     bind_err (drift_velocity_np c p S row3) (\<lambda>vv1.
     bind_err
       (np_minimum (Inr vv1)
         (np_map (\<lambda>x. x / fff) (np_div (Inr (rgrid p)) (Inr (s_tgrowth S))))) (\<lambda>vv2.
     bind_err
       (np_mul
         (np_mul (np_mul (Inr (map (\<lambda>r. 2 * pi * r) (rgrid p))) (Inr vv2)) (Inr (SigmaDust p)))
         (np_div (Inr mit) (Inr m0))) (\<lambda>frow.
     bind_err (np_setrow (flux s) it frow) (\<lambda>flux1.
     Inr \<lparr> st = st3, flux = flux1, massout = massout1, vv = vv2 \<rparr>))))))))))))))))))))))))"

text \<open>\<open>for it in range(1, n)\<close>.\<close>

definition time_loop_np ::
  "constants \<Rightarrow> pars \<Rightarrow> static \<Rightarrow> pp_state \<Rightarrow> nat \<Rightarrow> error + pp_state" where
  "time_loop_np c p S s n =
     foldl (\<lambda>acc it. bind_err acc (\<lambda>s1. step_np c p S s1 it)) (Inr s) [1..<n]"

text \<open>
  The function: the static fields (lines 40 to 64), the initial condition (lines 65 to 69),
  the loop (lines 72 to 82) and the two matrices it returns. With fewer than two radii
  \<open>rgrid[0]\<close> or \<open>rgrid[1]\<close> (line 46) raises IndexError; with an empty time grid the
  matrices have no row 0, and the store \<open>massout[0, ir]\<close> (line 66) raises IndexError.
\<close>

definition pebble_predictor ::
  "constants \<Rightarrow> pars \<Rightarrow> error + (real list list \<times> real list list)" where
  "pebble_predictor c p =
     bind_err (static_np c p) (\<lambda>S.
     bind_err (initial_np c p S) (\<lambda>s0.
     bind_err (time_loop_np c p S s0 (length (tgrid p))) (\<lambda>s.
     Inr (st s, flux s))))"

subsection \<open>Preconditions\<close>

text \<open>Every per-radius array has the radial grid's length.\<close>

definition shapes_agree :: "pars \<Rightarrow> bool" where
  "shapes_agree p \<longleftrightarrow>
     length (SigmaGas p) = length (rgrid p) \<and>
     length (SigmaDust p) = length (rgrid p) \<and>
     length (T p) = length (rgrid p)"

text \<open>
  The preconditions of the interface: grids of positive (radii) and non-negative (times)
  reals, strictly increasing, at least two radii and one time; positive profiles of the
  radial grid's length; positive scalars and constants.
\<close>

definition valid_input :: "constants \<Rightarrow> pars \<Rightarrow> bool" where
  "valid_input c p \<longleftrightarrow>
     0 < k_b c \<and> 0 < m_p c \<and> 0 < Grav c \<and> 0 < au c \<and>
     2 \<le> length (rgrid p) \<and> 1 \<le> length (tgrid p) \<and> shapes_agree p \<and>
     sorted_wrt (<) (rgrid p) \<and> list_all (\<lambda>r. 0 < r) (rgrid p) \<and>
     sorted_wrt (<) (tgrid p) \<and> list_all (\<lambda>t. 0 \<le> t) (tgrid p) \<and>
     list_all (\<lambda>x. 0 < x) (SigmaGas p) \<and>
     list_all (\<lambda>x. 0 < x) (SigmaDust p) \<and>
     list_all (\<lambda>x. 0 < x) (T p) \<and>
     0 < Mstar p \<and> 0 < alpha p \<and> 0 < vfrag p \<and> 0 < rhop p"

text \<open>The shape of the state: three matrices of \<open>m\<close> rows of \<open>n\<close> entries, \<open>vv\<close> of \<open>n\<close> entries.\<close>

definition well_shaped :: "nat \<Rightarrow> nat \<Rightarrow> pp_state \<Rightarrow> bool" where
  "well_shaped m n s \<longleftrightarrow>
     length (st s) = m \<and> length (flux s) = m \<and> length (massout s) = m \<and>
     (\<forall>row \<in> set (st s). length row = n) \<and>
     (\<forall>row \<in> set (flux s). length row = n) \<and>
     (\<forall>row \<in> set (massout s). length row = n) \<and>
     length (vv s) = n"

subsection \<open>Concrete inputs\<close>

text \<open>
  The constants in CGS units, with the CODATA 2018 values (astropy's defaults): Boltzmann
  constant, proton mass, gravitational constant, astronomical unit.
\<close>

definition astropy_cgs :: constants where
  "astropy_cgs =
     \<lparr> k_b = 1.380649 / 10 ^ 16, m_p = 1.67262192369 / 10 ^ 24,
       Grav = 6.6743 / 10 ^ 8, au = 1.495978707 * 10 ^ 13 \<rparr>"

text \<open>
  A disk around a star of one solar mass: radii of about 1, 2 and 4 au, three times a
  thousand years apart, flat profiles.
\<close>

definition example_disk :: pars where
  "example_disk =
     \<lparr> rgrid = [1.5 * 10 ^ 13, 3 * 10 ^ 13, 6 * 10 ^ 13],
       tgrid = [0, 3.15 * 10 ^ 10, 6.3 * 10 ^ 10],
       Mstar = 1.989 * 10 ^ 33,
       SigmaGas = [100, 100, 100],
       SigmaDust = [1, 1, 1],
       T = [200, 200, 200],
       alpha = 0.001,
       vfrag = 1000,
       rhop = 1.6 \<rparr>"

text \<open>The same disk on the three-point grid \<open>[1, 2, 4]\<close> of the interface test.\<close>

definition grid_124 :: pars where
  "grid_124 = example_disk \<lparr> rgrid := [1, 2, 4] \<rparr>"

text \<open>The example disk with a fragmentation velocity of 1 cm/s.\<close>

definition fragile_disk :: pars where
  "fragile_disk = example_disk \<lparr> vfrag := 1 \<rparr>"

text \<open>The example disk with its time grid in decreasing order.\<close>

definition reversed_times :: pars where
  "reversed_times = example_disk \<lparr> tgrid := [6.3 * 10 ^ 10, 3.15 * 10 ^ 10, 0] \<rparr>"

text \<open>
  Two radii, the outer four times the inner, and a gas surface density that rises
  outwards by the factor 8: the pressure is the same at both radii.
\<close>

definition pressure_bump :: pars where
  "pressure_bump =
     \<lparr> rgrid = [1.5 * 10 ^ 13, 6 * 10 ^ 13],
       tgrid = [0, 3.15 * 10 ^ 10, 6.3 * 10 ^ 10],
       Mstar = 1.989 * 10 ^ 33,
       SigmaGas = [100, 800],
       SigmaDust = [1, 1],
       T = [200, 200],
       alpha = 0.001,
       vfrag = 1000,
       rhop = 1.6 \<rparr>"

text \<open>Two radii, flat profiles, and time steps of \<open>10^17\<close> seconds.\<close>

definition coarse_times :: pars where
  "coarse_times =
     \<lparr> rgrid = [1.5 * 10 ^ 13, 6 * 10 ^ 13],
       tgrid = [0, 10 ^ 17, 2 * 10 ^ 17],
       Mstar = 1.989 * 10 ^ 33,
       SigmaGas = [100, 100],
       SigmaDust = [1, 1],
       T = [200, 200],
       alpha = 0.001,
       vfrag = 1000,
       rhop = 1.6 \<rparr>"

text \<open>The example disk with its radial grid in decreasing order.\<close>

definition reversed_radii :: pars where
  "reversed_radii = example_disk \<lparr> rgrid := [6 * 10 ^ 13, 3 * 10 ^ 13, 1.5 * 10 ^ 13] \<rparr>"

text \<open>
  The example disk with a negative temperature, without gas at the middle radius, and
  with alpha zero.
\<close>

definition negative_temperature :: pars where
  "negative_temperature = example_disk \<lparr> T := [- 200, - 200, - 200] \<rparr>"

definition no_gas :: pars where
  "no_gas = example_disk \<lparr> SigmaGas := [100, 0, 100] \<rparr>"

definition zero_alpha :: pars where
  "zero_alpha = example_disk \<lparr> alpha := 0 \<rparr>"

text \<open>Two radii and one time, with the temperature given as an array of one entry.\<close>

definition isothermal_disk :: pars where
  "isothermal_disk =
     \<lparr> rgrid = [1.5 * 10 ^ 13, 6 * 10 ^ 13],
       tgrid = [0],
       Mstar = 1.989 * 10 ^ 33,
       SigmaGas = [100, 100],
       SigmaDust = [1, 1],
       T = [200],
       alpha = 0.001,
       vfrag = 1000,
       rhop = 1.6 \<rparr>"

text \<open>The example disk with one radius only, and with a gas profile of two entries.\<close>

definition single_radius :: pars where
  "single_radius =
     example_disk \<lparr> rgrid := [1.5 * 10 ^ 13], SigmaGas := [100], SigmaDust := [1],
       T := [200] \<rparr>"

definition short_profile :: pars where
  "short_profile = example_disk \<lparr> SigmaGas := [100, 100] \<rparr>"

section \<open>Arrays, grids and the initial mass budget\<close>

lemma length_arr [simp]:
  "length (arr_add xs ys) = min (length xs) (length ys)"
  "length (arr_sub xs ys) = min (length xs) (length ys)"
  "length (arr_mul xs ys) = min (length xs) (length ys)"
  "length (arr_div xs ys) = min (length xs) (length ys)"
  "length (arr_minimum xs ys) = min (length xs) (length ys)"
  "length (arr_maximum xs ys) = min (length xs) (length ys)"
  by (simp_all add: arr_add_def arr_sub_def arr_mul_def arr_div_def arr_minimum_def
      arr_maximum_def)

lemma nth_arr [simp]:
  assumes "i < length xs" "i < length ys"
  shows "arr_add xs ys ! i = xs ! i + ys ! i"
    and "arr_sub xs ys ! i = xs ! i - ys ! i"
    and "arr_mul xs ys ! i = xs ! i * ys ! i"
    and "arr_div xs ys ! i = xs ! i / ys ! i"
    and "arr_minimum xs ys ! i = min (xs ! i) (ys ! i)"
    and "arr_maximum xs ys ! i = max (xs ! i) (ys ! i)"
  using assms
  by (simp_all add: arr_add_def arr_sub_def arr_mul_def arr_div_def arr_minimum_def
      arr_maximum_def)

lemma drop_Cons_replicate: "drop k (x # replicate k x) = [x]"
  by (induct k) simp_all

lemma nth_Cons_snoc_last: "length xs = n \<Longrightarrow> (a # xs @ [b]) ! Suc n = b"
  by (simp add: nth_append)

lemma rInt_shape:
  assumes "2 \<le> length (rgrid p)"
  shows "rInt p =
    (1.5 * rgrid p ! 0 - 0.5 * rgrid p ! 1) #
    map (\<lambda>x. 0.5 * x) (arr_add (drop 1 (rgrid p)) (butlast (rgrid p))) @
    [1.5 * rgrid p ! (length (rgrid p) - 1) - 0.5 * rgrid p ! (length (rgrid p) - 2)]"
proof -
  obtain k where k: "length (rgrid p) = Suc (Suc k)"
    using assms by (metis Suc_le_D numeral_2_eq_2 Suc_le_mono)
  have len: "length (map (\<lambda>x. 0.5 * x) (arr_add (drop 1 (rgrid p)) (butlast (rgrid p)))) = Suc k"
    by (simp add: k)
  show ?thesis
    unfolding rInt_def Let_def k
    by (simp add: len list_update_append k drop_Cons_replicate)
qed

lemma length_rInt:
  assumes "2 \<le> length (rgrid p)"
  shows "length (rInt p) = length (rgrid p) + 1"
  using assms by (subst rInt_shape) simp_all

lemma rInt_first:
  assumes "2 \<le> length (rgrid p)"
  shows "rInt p ! 0 = 1.5 * rgrid p ! 0 - 0.5 * rgrid p ! 1"
  using assms by (subst rInt_shape) simp_all

lemma rInt_last:
  assumes "2 \<le> length (rgrid p)"
  shows "rInt p ! length (rgrid p) =
    1.5 * rgrid p ! (length (rgrid p) - 1) - 0.5 * rgrid p ! (length (rgrid p) - 2)"
proof -
  obtain k where k: "length (rgrid p) = Suc k"
    using assms by (cases "length (rgrid p)") simp_all
  show ?thesis
    using assms by (subst rInt_shape, simp, subst (3) k, subst nth_Cons_snoc_last) (simp_all add: k)
qed

lemma rInt_mid:
  assumes "2 \<le> length (rgrid p)" "1 \<le> i" "i < length (rgrid p)"
  shows "rInt p ! i = 0.5 * (rgrid p ! (i - 1) + rgrid p ! i)"
  using assms by (subst rInt_shape) (auto simp: nth_append nth_butlast nth_Cons split: nat.splits)

lemma static_lengths:
  assumes "shapes_agree p"
  shows "length (cs c p) = length (rgrid p)"
    and "length (OmegaK c p) = length (rgrid p)"
    and "length (rhog c p) = length (rgrid p)"
    and "length (pg c p) = length (rgrid p)"
    and "length (stfrag c p) = length (rgrid p)"
    and "length (st0 p) = length (rgrid p)"
    and "length (Z0 p) = length (rgrid p)"
    and "length (tgrowth c p) = length (rgrid p)"
  using assms
  by (simp_all add: shapes_agree_def cs_def OmegaK_def rhog_def pg_def stfrag_def st0_def
      Z0_def tgrowth_def)

lemma grid_lengths:
  assumes "shapes_agree p" "2 \<le> length (rgrid p)"
  shows "length (dr p) = length (rgrid p)"
    and "length (pgInt c p) = length (rgrid p) + 1"
    and "length (eta c p) = length (rgrid p)"
    and "length (stdf c p) = length (rgrid p)"
  using assms
  by (simp_all add: dr_def pgInt_def eta_def stdf_def length_rInt static_lengths)

lemma dr_nth:
  assumes "2 \<le> length (rgrid p)" "i < length (rgrid p)"
  shows "dr p ! i = rInt p ! (i + 1) - rInt p ! i"
  using assms by (simp add: dr_def length_rInt nth_butlast)

lemma foldl_row_update:
  assumes "0 < length m" "n \<le> length (m ! 0)"
  shows "foldl (\<lambda>m ir. m[0 := (m ! 0)[ir := f ir]]) m [0..<n] =
    m[0 := map f [0..<n] @ drop n (m ! 0)]"
  using assms
proof (induction n)
  case 0
  then show ?case by simp
next
  case (Suc n)
  then have n: "n < length (m ! 0)" by simp
  have "(map f [0..<n] @ drop n (m ! 0))[n := f n] =
      map f [0..<n] @ f n # drop (Suc n) (m ! 0)"
    using n by (simp add: list_update_append Cons_nth_drop_Suc [symmetric])
  with Suc show ?case by simp
qed

lemma massout_init_zeros:
  assumes "1 \<le> m"
  shows "massout_init p (zeros m (length (rgrid p))) =
    (zeros m (length (rgrid p)))[0 := map (\<lambda>ir. sum_list (mass_terms p ir)) [0..<length (rgrid p)]]"
  using assms unfolding massout_init_def
  by (subst foldl_row_update) (simp_all add: zeros_def)

section \<open>The time loop\<close>

text \<open>
  An iteration writes row \<open>it\<close> of the three matrices and reads rows \<open>it - 1\<close> and 0 only;
  so the rows of the final state satisfy the equations of the loop body.
\<close>

lemma time_loop_0: "time_loop c p s 0 = s"
  by (simp add: time_loop_def)

lemma time_loop_1: "time_loop c p s (Suc 0) = s"
  by (simp add: time_loop_def)

lemma time_loop_Suc: "1 \<le> n \<Longrightarrow> time_loop c p s (Suc n) = step c p (time_loop c p s n) n"
  by (simp add: time_loop_def)

lemma step_lengths:
  "length (st (step c p s it)) = length (st s)"
  "length (flux (step c p s it)) = length (flux s)"
  "length (massout (step c p s it)) = length (massout s)"
  by (simp_all add: step_def Let_def)

lemma step_frame:
  assumes "j \<noteq> it"
  shows "st (step c p s it) ! j = st s ! j"
    and "flux (step c p s it) ! j = flux s ! j"
    and "massout (step c p s it) ! j = massout s ! j"
  using assms by (simp_all add: step_def Let_def)

lemma step_cong:
  assumes "1 \<le> it"
    and "it < length (st s)" "it < length (flux s)" "it < length (massout s)"
    and "length (st s') = length (st s)"
    and "length (flux s') = length (flux s)"
    and "length (massout s') = length (massout s)"
    and "massout s' ! (it - 1) = massout s ! (it - 1)"
    and "flux s' ! (it - 1) = flux s ! (it - 1)"
    and "massout s' ! 0 = massout s ! 0"
  shows "st (step c p s' it) ! it = st (step c p s it) ! it"
    and "flux (step c p s' it) ! it = flux (step c p s it) ! it"
    and "massout (step c p s' it) ! it = massout (step c p s it) ! it"
    and "vv (step c p s' it) = vv (step c p s it)"
  using assms by (simp_all add: step_def Let_def)

text \<open>Re-running an iteration on a state that already holds its rows changes nothing.\<close>

lemma step_stable_rows:
  assumes "it < length (st s)" "it < length (flux s)" "it < length (massout s)"
    and "st (step c p s it) ! it = st s ! it"
    and "flux (step c p s it) ! it = flux s ! it"
    and "massout (step c p s it) ! it = massout s ! it"
  shows "st (step c p s it) = st s"
    and "flux (step c p s it) = flux s"
    and "massout (step c p s it) = massout s"
proof -
  show "st (step c p s it) = st s"
  proof (rule nth_equalityI)
    fix i show "st (step c p s it) ! i = st s ! i"
      using assms(4) by (cases "i = it") (simp_all add: step_frame)
  qed (simp add: step_lengths)
  show "flux (step c p s it) = flux s"
  proof (rule nth_equalityI)
    fix i show "flux (step c p s it) ! i = flux s ! i"
      using assms(5) by (cases "i = it") (simp_all add: step_frame)
  qed (simp add: step_lengths)
  show "massout (step c p s it) = massout s"
  proof (rule nth_equalityI)
    fix i show "massout (step c p s it) ! i = massout s ! i"
      using assms(6) by (cases "i = it") (simp_all add: step_frame)
  qed (simp add: step_lengths)
qed

lemma time_loop_length_st: "length (st (time_loop c p s n)) = length (st s)"
  by (induction n) (simp_all add: time_loop_def step_lengths)

lemma time_loop_length_flux: "length (flux (time_loop c p s n)) = length (flux s)"
  by (induction n) (simp_all add: time_loop_def step_lengths)

lemma time_loop_length_massout: "length (massout (time_loop c p s n)) = length (massout s)"
  by (induction n) (simp_all add: time_loop_def step_lengths)

lemmas time_loop_lengths = time_loop_length_st time_loop_length_flux time_loop_length_massout

lemma time_loop_frame_st:
  "n \<le> j \<or> j = 0 \<Longrightarrow> st (time_loop c p s n) ! j = st s ! j"
  by (induction n) (auto simp: time_loop_def step_frame)

lemma time_loop_frame_flux:
  "n \<le> j \<or> j = 0 \<Longrightarrow> flux (time_loop c p s n) ! j = flux s ! j"
  by (induction n) (auto simp: time_loop_def step_frame)

lemma time_loop_frame_massout:
  "n \<le> j \<or> j = 0 \<Longrightarrow> massout (time_loop c p s n) ! j = massout s ! j"
  by (induction n) (auto simp: time_loop_def step_frame)

lemmas time_loop_frame = time_loop_frame_st time_loop_frame_flux time_loop_frame_massout

text \<open>Every iteration already run is stable on the state the loop has reached.\<close>

lemma time_loop_stable:
  assumes "length (st s) = m" "length (flux s) = m" "length (massout s) = m"
  shows "n \<le> m \<Longrightarrow> 1 \<le> it \<Longrightarrow> it < n \<Longrightarrow>
    st (step c p (time_loop c p s n) it) = st (time_loop c p s n) \<and>
    flux (step c p (time_loop c p s n) it) = flux (time_loop c p s n) \<and>
    massout (step c p (time_loop c p s n) it) = massout (time_loop c p s n)"
proof (induction n)
  case 0
  then show ?case by simp
next
  case (Suc n)
  let ?s = "time_loop c p s n"
  let ?s' = "step c p ?s n"
  have n1: "1 \<le> n" using Suc.prems by simp
  have s': "time_loop c p s (Suc n) = ?s'"
    using n1 by (rule time_loop_Suc)
  have len: "length (st ?s) = m" "length (flux ?s) = m" "length (massout ?s) = m"
    using assms by (simp_all add: time_loop_lengths)
  have itm: "it < m" using Suc.prems by simp
  have rows: "st (step c p ?s' it) ! it = st ?s' ! it \<and>
      flux (step c p ?s' it) ! it = flux ?s' ! it \<and>
      massout (step c p ?s' it) ! it = massout ?s' ! it"
  proof (cases "it = n")
    case True
    have pre: "n < length (st ?s)" "n < length (flux ?s)" "n < length (massout ?s)"
      "length (st ?s') = length (st ?s)" "length (flux ?s') = length (flux ?s)"
      "length (massout ?s') = length (massout ?s)"
      "massout ?s' ! (n - 1) = massout ?s ! (n - 1)"
      "flux ?s' ! (n - 1) = flux ?s ! (n - 1)"
      "massout ?s' ! 0 = massout ?s ! 0"
      using n1 itm True len by (simp_all add: step_lengths step_frame)
    show ?thesis
      unfolding True
      using step_cong(1-3) [where s = ?s and s' = ?s' and it = n, OF n1 pre] by simp
  next
    case False
    then have lt: "it < n" using Suc.prems by simp
    have IH: "st (step c p ?s it) = st ?s" "flux (step c p ?s it) = flux ?s"
      "massout (step c p ?s it) = massout ?s"
      using Suc.IH Suc.prems lt by simp_all
    have pre: "it < length (st ?s)" "it < length (flux ?s)" "it < length (massout ?s)"
      "length (st ?s') = length (st ?s)" "length (flux ?s') = length (flux ?s)"
      "length (massout ?s') = length (massout ?s)"
      "massout ?s' ! (it - 1) = massout ?s ! (it - 1)"
      "flux ?s' ! (it - 1) = flux ?s ! (it - 1)"
      "massout ?s' ! 0 = massout ?s ! 0"
      using Suc.prems(2) itm lt len by (simp_all add: step_lengths step_frame)
    show ?thesis
      using step_cong(1-3) [where s = ?s and s' = ?s' and it = it, OF Suc.prems(2) pre]
        IH False
      by (simp add: step_frame)
  qed
  have "it < length (st ?s')" "it < length (flux ?s')" "it < length (massout ?s')"
    using itm len by (simp_all add: step_lengths)
  then show ?case
    unfolding s'
    using rows step_stable_rows [where s = ?s' and it = it and c = c and p = p]
    by blast
qed

lemma step_massout_row:
  assumes "it < length (massout s)"
  shows "massout (step c p s it) ! it =
    arr_sub (massout s ! (it - 1))
      (map (\<lambda>f. f * (tgrid p ! it - tgrid p ! (it - 1))) (flux s ! (it - 1)))"
  using assms by (simp add: step_def Let_def)

lemma step_st_row:
  assumes "it < length (st s)"
  shows "st (step c p s it) ! it =
    arr_maximum
      (arr_minimum
        (arr_minimum (arr_minimum (stfrag c p) (stdf c p))
          (arr_mul (st0 p) (map (\<lambda>tg. exp (tgrid p ! it / tg)) (tgrowth c p))))
        (map (\<lambda>x. x / fff)
          (arr_div
            (arr_mul (Z0 p)
              (arr_div (massout (step c p s it) ! it) (massout (step c p s it) ! 0)))
            (map abs (eta c p)))))
      (st0 p)"
  using assms by (simp add: step_def Let_def)

lemma step_vv:
  "vv (step c p s it) =
    arr_minimum (drift_velocity c p (st (step c p s it) ! it))
      (map (\<lambda>x. x / fff) (arr_div (rgrid p) (tgrowth c p)))"
  by (simp add: step_def Let_def)

lemma step_flux_row:
  assumes "it < length (flux s)"
  shows "flux (step c p s it) ! it =
    arr_mul
      (arr_mul (arr_mul (map (\<lambda>r. 2 * pi * r) (rgrid p)) (vv (step c p s it)))
        (SigmaDust p))
      (arr_div (massout (step c p s it) ! it) (massout (step c p s it) ! 0))"
  using assms by (simp add: step_def Let_def)

lemma length_zeros: "length (zeros m n) = m"
  by (simp add: zeros_def)

lemma zeros_update_0: "1 \<le> m \<Longrightarrow> (zeros m n)[0 := r] ! 0 = r"
  by (simp add: zeros_def)

lemma length_foldl_row_update:
  "length (foldl (\<lambda>m ir. m[0 := (m ! 0)[ir := f ir]]) m xs) = length m"
  by (induction xs arbitrary: m) simp_all

lemma initial_lengths:
  "length (st (initial c p)) = length (tgrid p)"
  "length (flux (initial c p)) = length (tgrid p)"
  "length (massout (initial c p)) = length (tgrid p)"
  by (simp_all add: initial_def Let_def length_zeros massout_init_def
      length_foldl_row_update)

lemma run_lengths:
  "length (st (run c p)) = length (tgrid p)"
  "length (flux (run c p)) = length (tgrid p)"
  "length (massout (run c p)) = length (tgrid p)"
  by (simp_all add: run_def time_loop_lengths initial_lengths)

lemma run_stable:
  assumes "1 \<le> it" "it < length (tgrid p)"
  shows "st (step c p (run c p) it) = st (run c p)"
    and "flux (step c p (run c p) it) = flux (run c p)"
    and "massout (step c p (run c p) it) = massout (run c p)"
  using time_loop_stable [where s = "initial c p" and m = "length (tgrid p)"
      and n = "length (tgrid p)" and it = it and c = c and p = p] assms
  by (simp_all add: run_def initial_lengths)

text \<open>The rows of the final state, as the loop body computes them.\<close>

lemma run_massout_row:
  assumes "1 \<le> it" "it < length (tgrid p)"
  shows "massout (run c p) ! it =
    arr_sub (massout (run c p) ! (it - 1))
      (map (\<lambda>f. f * (tgrid p ! it - tgrid p ! (it - 1))) (flux (run c p) ! (it - 1)))"
  using step_massout_row [of it "run c p" c p] assms
  by (simp add: run_stable run_lengths)

lemma run_st_row:
  assumes "1 \<le> it" "it < length (tgrid p)"
  shows "st (run c p) ! it =
    arr_maximum
      (arr_minimum
        (arr_minimum (arr_minimum (stfrag c p) (stdf c p))
          (arr_mul (st0 p) (map (\<lambda>tg. exp (tgrid p ! it / tg)) (tgrowth c p))))
        (map (\<lambda>x. x / fff)
          (arr_div
            (arr_mul (Z0 p) (arr_div (massout (run c p) ! it) (massout (run c p) ! 0)))
            (map abs (eta c p)))))
      (st0 p)"
  using step_st_row [of it "run c p" c p] assms
  by (simp add: run_stable run_lengths)

lemma run_flux_row:
  assumes "1 \<le> it" "it < length (tgrid p)"
  shows "flux (run c p) ! it =
    arr_mul
      (arr_mul
        (arr_mul (map (\<lambda>r. 2 * pi * r) (rgrid p))
          (arr_minimum (drift_velocity c p (st (run c p) ! it))
            (map (\<lambda>x. x / fff) (arr_div (rgrid p) (tgrowth c p)))))
        (SigmaDust p))
      (arr_div (massout (run c p) ! it) (massout (run c p) ! 0))"
  using step_flux_row [of it "run c p" c p] assms
  by (simp add: run_stable run_lengths step_vv)

lemma initial_st_row0:
  assumes "1 \<le> length (tgrid p)"
  shows "st (initial c p) ! 0 = st0 p"
  using assms by (simp add: initial_def Let_def zeros_update_0)

lemma initial_vv:
  assumes "1 \<le> length (tgrid p)"
  shows "vv (initial c p) = drift_velocity c p (st0 p)"
  using assms by (simp add: initial_def Let_def zeros_update_0)

lemma initial_flux_row0:
  assumes "1 \<le> length (tgrid p)"
  shows "flux (initial c p) ! 0 =
    arr_mul (arr_mul (map (\<lambda>r. 2 * pi * r) (rgrid p)) (drift_velocity c p (st0 p)))
      (SigmaDust p)"
  using assms by (simp add: initial_def Let_def zeros_update_0)

lemma initial_massout_row0:
  assumes "1 \<le> length (tgrid p)"
  shows "massout (initial c p) ! 0 =
    map (\<lambda>ir. sum_list (mass_terms p ir)) [0..<length (rgrid p)]"
  using assms by (simp add: initial_def Let_def massout_init_zeros zeros_update_0)

lemma run_st_row0:
  assumes "1 \<le> length (tgrid p)"
  shows "st (run c p) ! 0 = st0 p"
  using assms by (simp add: run_def time_loop_frame initial_st_row0)

lemma run_flux_row0:
  assumes "1 \<le> length (tgrid p)"
  shows "flux (run c p) ! 0 =
    arr_mul (arr_mul (map (\<lambda>r. 2 * pi * r) (rgrid p)) (drift_velocity c p (st0 p)))
      (SigmaDust p)"
  using assms by (simp add: run_def time_loop_frame initial_flux_row0)

lemma run_massout_row0:
  assumes "1 \<le> length (tgrid p)"
  shows "massout (run c p) ! 0 =
    map (\<lambda>ir. sum_list (mass_terms p ir)) [0..<length (rgrid p)]"
  using assms by (simp add: run_def time_loop_frame initial_massout_row0)

subsection \<open>The shape of the state\<close>

lemma rows_update:
  assumes "\<forall>row \<in> set xs. length row = n" "length v = n"
  shows "\<forall>row \<in> set (xs[i := v]). length row = (n::nat)"
  using assms set_update_subset_insert [of xs i v] by fastforce

lemma length_drift_velocity:
  assumes "shapes_agree p" "2 \<le> length (rgrid p)" "length s = length (rgrid p)"
  shows "length (drift_velocity c p s) = length (rgrid p)"
  using assms by (simp add: drift_velocity_def static_lengths grid_lengths)

lemma step_updates:
  "st (step c p s it) = (st s)[it := st (step c p s it) ! it]"
  "flux (step c p s it) = (flux s)[it := flux (step c p s it) ! it]"
  "massout (step c p s it) = (massout s)[it := massout (step c p s it) ! it]"
proof -
  show "st (step c p s it) = (st s)[it := st (step c p s it) ! it]"
    by (cases "it < length (st s)") (simp_all add: step_def Let_def list_update_beyond)
  show "flux (step c p s it) = (flux s)[it := flux (step c p s it) ! it]"
    by (cases "it < length (flux s)") (simp_all add: step_def Let_def list_update_beyond)
  show "massout (step c p s it) = (massout s)[it := massout (step c p s it) ! it]"
    by (cases "it < length (massout s)") (simp_all add: step_def Let_def list_update_beyond)
qed

lemma step_well_shaped:
  assumes sh: "shapes_agree p" "2 \<le> length (rgrid p)"
    and it: "1 \<le> it" "it < m"
    and ws: "well_shaped m (length (rgrid p)) s"
  shows "well_shaped m (length (rgrid p)) (step c p s it)"
proof -
  let ?n = "length (rgrid p)"
  let ?s' = "step c p s it"
  have len: "length (st s) = m" "length (flux s) = m" "length (massout s) = m"
    using ws by (simp_all add: well_shaped_def)
  have row: "length (st s ! j) = ?n" "length (flux s ! j) = ?n"
    "length (massout s ! j) = ?n" if "j < m" for j
    using ws that by (simp_all add: well_shaped_def)
  have m_it: "length (massout ?s' ! it) = ?n"
    using it len row [of "it - 1"] by (simp add: step_massout_row)
  have m_0: "length (massout ?s' ! 0) = ?n"
    using it row [of 0] by (simp add: step_frame)
  have st_it: "length (st ?s' ! it) = ?n"
    using it len sh m_it m_0 by (simp add: step_st_row static_lengths grid_lengths)
  have vv': "length (vv ?s') = ?n"
    using sh st_it by (simp add: step_vv length_drift_velocity static_lengths)
  have fl_it: "length (flux ?s' ! it) = ?n"
    using it len sh m_it m_0 vv' by (simp add: step_flux_row shapes_agree_def)
  have "\<forall>row \<in> set (st ?s'). length row = ?n"
  proof -
    have "set (st ?s') \<subseteq> insert (st ?s' ! it) (set (st s))"
      by (subst step_updates(1)) (rule set_update_subset_insert)
    then show ?thesis
      using ws st_it by (auto simp: well_shaped_def)
  qed
  moreover have "\<forall>row \<in> set (flux ?s'). length row = ?n"
  proof -
    have "set (flux ?s') \<subseteq> insert (flux ?s' ! it) (set (flux s))"
      by (subst step_updates(2)) (rule set_update_subset_insert)
    then show ?thesis
      using ws fl_it by (auto simp: well_shaped_def)
  qed
  moreover have "\<forall>row \<in> set (massout ?s'). length row = ?n"
  proof -
    have "set (massout ?s') \<subseteq> insert (massout ?s' ! it) (set (massout s))"
      by (subst step_updates(3)) (rule set_update_subset_insert)
    then show ?thesis
      using ws m_it by (auto simp: well_shaped_def)
  qed
  ultimately show ?thesis
    using len vv' by (simp add: well_shaped_def step_lengths)
qed

lemma time_loop_well_shaped:
  assumes "shapes_agree p" "2 \<le> length (rgrid p)"
    and "well_shaped m (length (rgrid p)) s"
  shows "n \<le> m \<Longrightarrow> well_shaped m (length (rgrid p)) (time_loop c p s n)"
proof (induction n)
  case 0
  then show ?case using assms by (simp add: time_loop_0)
next
  case (Suc n)
  show ?case
  proof (cases "1 \<le> n")
    case True
    then show ?thesis
      using Suc assms(1,2) by (simp add: time_loop_Suc step_well_shaped)
  next
    case False
    then show ?thesis using assms by (simp add: time_loop_def)
  qed
qed

lemma initial_well_shaped:
  assumes "shapes_agree p" "2 \<le> length (rgrid p)" "1 \<le> length (tgrid p)"
  shows "well_shaped (length (tgrid p)) (length (rgrid p)) (initial c p)"
proof -
  let ?m = "length (tgrid p)" and ?n = "length (rgrid p)"
  have m1: "1 \<le> ?m" using assms(3) .
  have z: "\<forall>row \<in> set (zeros ?m ?n). length row = ?n"
    by (simp add: zeros_def)
  have st: "st (initial c p) = (zeros ?m ?n)[0 := st0 p]"
    by (simp add: initial_def Let_def)
  have vv: "vv (initial c p) = drift_velocity c p (st0 p)"
    using m1 by (rule initial_vv)
  have fl: "flux (initial c p) = (zeros ?m ?n)[0 :=
      arr_mul (arr_mul (map (\<lambda>r. 2 * pi * r) (rgrid p)) (vv (initial c p)))
        (SigmaDust p)]"
    by (simp add: initial_def Let_def)
  have mo: "massout (initial c p) = massout_init p (zeros ?m ?n)"
    by (simp add: initial_def Let_def)
  have lst0: "length (st0 p) = ?n"
    using assms(1) by (rule static_lengths)
  have lv: "length (vv (initial c p)) = ?n"
    unfolding vv using assms(1,2) lst0 by (rule length_drift_velocity)
  have lf: "length (arr_mul (arr_mul (map (\<lambda>r. 2 * pi * r) (rgrid p)) (vv (initial c p)))
        (SigmaDust p)) = ?n"
    using lv assms(1) by (simp add: shapes_agree_def)
  have r1: "\<forall>row \<in> set (st (initial c p)). length row = ?n"
    unfolding st using z lst0 by (rule rows_update)
  have r2: "\<forall>row \<in> set (flux (initial c p)). length row = ?n"
    unfolding fl using z lf by (rule rows_update)
  have r3: "\<forall>row \<in> set (massout (initial c p)). length row = ?n"
    unfolding mo massout_init_zeros [OF m1]
    using z by (rule rows_update) simp
  show ?thesis
    unfolding well_shaped_def
    using r1 r2 r3 lv initial_lengths [of c p] by blast
qed

lemma run_well_shaped:
  assumes "shapes_agree p" "2 \<le> length (rgrid p)" "1 \<le> length (tgrid p)"
  shows "well_shaped (length (tgrid p)) (length (rgrid p)) (run c p)"
  unfolding run_def
  using assms by (intro time_loop_well_shaped initial_well_shaped) simp_all

lemma run_row_lengths:
  assumes "shapes_agree p" "2 \<le> length (rgrid p)" "it < length (tgrid p)"
  shows "length (st (run c p) ! it) = length (rgrid p)"
    and "length (flux (run c p) ! it) = length (rgrid p)"
    and "length (massout (run c p) ! it) = length (rgrid p)"
  using run_well_shaped [of p c] assms by (simp_all add: well_shaped_def)

subsection \<open>Entries of the static fields and of the rows\<close>

lemma static_nth:
  assumes "shapes_agree p" "i < length (rgrid p)"
  shows "cs c p ! i = sqrt (k_b c * T p ! i / (2.3 * m_p c))"
    and "OmegaK c p ! i = sqrt (Grav c * Mstar p / rgrid p ! i ^ 3)"
    and "rhog c p ! i = SigmaGas p ! i * OmegaK c p ! i / (sqrt (2 * pi) * cs c p ! i)"
    and "pg c p ! i = rhog c p ! i * (cs c p ! i) ^ 2"
    and "stfrag c p ! i = 0.37 * vfrag p ^ 2 / (3 * alpha p * (cs c p ! i) ^ 2)"
    and "st0 p ! i = 0.5 * pi * a0 * rhop p / SigmaGas p ! i"
    and "Z0 p ! i = SigmaDust p ! i / SigmaGas p ! i"
    and "tgrowth c p ! i =
      1 / ((alpha p / 0.0001) powr 0.3333 * Z0 p ! i * OmegaK c p ! i *
        (rgrid p ! i / au c) powr (- 0.3333))"
proof -
  have len: "length (SigmaGas p) = length (rgrid p)" "length (SigmaDust p) = length (rgrid p)"
    "length (T p) = length (rgrid p)"
    using assms(1) by (simp_all add: shapes_agree_def)
  show "cs c p ! i = sqrt (k_b c * T p ! i / (2.3 * m_p c))"
    using assms len by (simp add: cs_def)
  show "OmegaK c p ! i = sqrt (Grav c * Mstar p / rgrid p ! i ^ 3)"
    using assms by (simp add: OmegaK_def)
  show "rhog c p ! i = SigmaGas p ! i * OmegaK c p ! i / (sqrt (2 * pi) * cs c p ! i)"
    using assms len by (simp add: rhog_def static_lengths)
  show "pg c p ! i = rhog c p ! i * (cs c p ! i) ^ 2"
    using assms len by (simp add: pg_def static_lengths)
  show "stfrag c p ! i = 0.37 * vfrag p ^ 2 / (3 * alpha p * (cs c p ! i) ^ 2)"
    using assms len by (simp add: stfrag_def static_lengths)
  show "st0 p ! i = 0.5 * pi * a0 * rhop p / SigmaGas p ! i"
    using assms len by (simp add: st0_def)
  show "Z0 p ! i = SigmaDust p ! i / SigmaGas p ! i"
    using assms len by (simp add: Z0_def)
  show "tgrowth c p ! i =
      1 / ((alpha p / 0.0001) powr 0.3333 * Z0 p ! i * OmegaK c p ! i *
        (rgrid p ! i / au c) powr (- 0.3333))"
    using assms len by (simp add: tgrowth_def static_lengths)
qed

lemma eta_nth:
  assumes "shapes_agree p" "2 \<le> length (rgrid p)" "i < length (rgrid p)"
  shows "eta c p ! i =
    (pgInt c p ! (i + 1) - pgInt c p ! i) / dr p ! i /
    (2 * rhog c p ! i * (OmegaK c p ! i) ^ 2 * rgrid p ! i)"
  using assms
  by (simp add: eta_def static_lengths grid_lengths nth_butlast)

lemma stdf_nth:
  assumes "shapes_agree p" "2 \<le> length (rgrid p)" "i < length (rgrid p)"
  shows "stdf c p ! i = 0.37 * vfrag p / (2 * \<bar>eta c p ! i\<bar> * OmegaK c p ! i * rgrid p ! i)"
  using assms
  by (simp add: stdf_def static_lengths grid_lengths)

lemma drift_velocity_nth:
  assumes "shapes_agree p" "2 \<le> length (rgrid p)" "i < length (rgrid p)"
    and "length s = length (rgrid p)"
  shows "drift_velocity c p s ! i =
    2 * \<bar>eta c p ! i\<bar> * OmegaK c p ! i * rgrid p ! i * s ! i / (1 + (s ! i) ^ 2)"
  using assms
  by (simp add: drift_velocity_def static_lengths grid_lengths)

lemma run_massout_nth:
  assumes "shapes_agree p" "2 \<le> length (rgrid p)"
    and "1 \<le> it" "it < length (tgrid p)" "ir < length (rgrid p)"
  shows "massout (run c p) ! it ! ir =
    massout (run c p) ! (it - 1) ! ir -
    flux (run c p) ! (it - 1) ! ir * (tgrid p ! it - tgrid p ! (it - 1))"
proof -
  have "it - 1 < length (tgrid p)" using assms(4) by simp
  then have "length (massout (run c p) ! (it - 1)) = length (rgrid p)"
    "length (flux (run c p) ! (it - 1)) = length (rgrid p)"
    using assms(1,2) by (simp_all add: run_row_lengths)
  then show ?thesis
    using assms by (subst run_massout_row) simp_all
qed

lemma run_st_nth:
  assumes "shapes_agree p" "2 \<le> length (rgrid p)"
    and "1 \<le> it" "it < length (tgrid p)" "ir < length (rgrid p)"
  shows "st (run c p) ! it ! ir =
    max
      (min
        (min (min (stfrag c p ! ir) (stdf c p ! ir))
          (st0 p ! ir * exp (tgrid p ! it / tgrowth c p ! ir)))
        (Z0 p ! ir * (massout (run c p) ! it ! ir / massout (run c p) ! 0 ! ir) /
          \<bar>eta c p ! ir\<bar> / fff))
      (st0 p ! ir)"
proof -
  have "0 < length (tgrid p)" using assms(4) by (cases "tgrid p") simp_all
  then have "length (massout (run c p) ! it) = length (rgrid p)"
    "length (massout (run c p) ! 0) = length (rgrid p)"
    using assms(1,2,4) by (simp_all add: run_row_lengths)
  then show ?thesis
    using assms
    by (subst run_st_row) (simp_all add: static_lengths grid_lengths)
qed

lemma run_flux_nth:
  assumes "shapes_agree p" "2 \<le> length (rgrid p)"
    and "1 \<le> it" "it < length (tgrid p)" "ir < length (rgrid p)"
  shows "flux (run c p) ! it ! ir =
    2 * pi * rgrid p ! ir *
    min (2 * \<bar>eta c p ! ir\<bar> * OmegaK c p ! ir * rgrid p ! ir * st (run c p) ! it ! ir /
          (1 + (st (run c p) ! it ! ir) ^ 2))
        (rgrid p ! ir / tgrowth c p ! ir / fff) *
    SigmaDust p ! ir *
    (massout (run c p) ! it ! ir / massout (run c p) ! 0 ! ir)"
proof -
  have "0 < length (tgrid p)" using assms(4) by (cases "tgrid p") simp_all
  then have len: "length (massout (run c p) ! it) = length (rgrid p)"
    "length (massout (run c p) ! 0) = length (rgrid p)"
    "length (st (run c p) ! it) = length (rgrid p)"
    using assms(1,2,4) by (simp_all add: run_row_lengths)
  have sd: "length (SigmaDust p) = length (rgrid p)"
    using assms(1) by (simp add: shapes_agree_def)
  have dv: "length (drift_velocity c p (st (run c p) ! it)) = length (rgrid p)"
    using assms(1,2) len(3) by (rule length_drift_velocity)
  show ?thesis
    using assms len sd dv
    by (subst run_flux_row) (simp_all add: static_lengths drift_velocity_nth)
qed

lemma run_flux0_nth:
  assumes "shapes_agree p" "2 \<le> length (rgrid p)"
    and "1 \<le> length (tgrid p)" "ir < length (rgrid p)"
  shows "flux (run c p) ! 0 ! ir =
    2 * pi * rgrid p ! ir *
    (2 * \<bar>eta c p ! ir\<bar> * OmegaK c p ! ir * rgrid p ! ir * st0 p ! ir /
      (1 + (st0 p ! ir) ^ 2)) *
    SigmaDust p ! ir"
proof -
  have sd: "length (SigmaDust p) = length (rgrid p)"
    using assms(1) by (simp add: shapes_agree_def)
  have l0: "length (st0 p) = length (rgrid p)"
    using assms(1) by (rule static_lengths)
  have dv: "length (drift_velocity c p (st0 p)) = length (rgrid p)"
    using assms(1,2) l0 by (rule length_drift_velocity)
  show ?thesis
    using assms sd dv l0
    by (subst run_flux_row0) (simp_all add: drift_velocity_nth)
qed

lemma run_massout0_nth:
  assumes "1 \<le> length (tgrid p)" "ir < length (rgrid p)"
  shows "massout (run c p) ! 0 ! ir = sum_list (mass_terms p ir)"
  using assms by (simp add: run_massout_row0)

subsection \<open>Signs under the preconditions\<close>

lemma valid_shapes:
  assumes "valid_input c p"
  shows "shapes_agree p" and "2 \<le> length (rgrid p)" and "1 \<le> length (tgrid p)"
  using assms by (simp_all add: valid_input_def)

lemma valid_nth:
  assumes "valid_input c p" "i < length (rgrid p)"
  shows "0 < rgrid p ! i" and "0 < SigmaGas p ! i" and "0 < SigmaDust p ! i"
    and "0 < T p ! i"
  using assms by (simp_all add: valid_input_def shapes_agree_def list_all_length)

lemma valid_scalars:
  assumes "valid_input c p"
  shows "0 < k_b c" and "0 < m_p c" and "0 < Grav c" and "0 < au c"
    and "0 < Mstar p" and "0 < alpha p" and "0 < vfrag p" and "0 < rhop p"
  using assms by (simp_all add: valid_input_def)

lemma valid_rgrid_mono:
  assumes "valid_input c p" "i < j" "j < length (rgrid p)"
  shows "rgrid p ! i < rgrid p ! j"
  using assms by (simp add: valid_input_def sorted_wrt_iff_nth_less)

lemma valid_tgrid_mono:
  assumes "valid_input c p" "i < j" "j < length (tgrid p)"
  shows "tgrid p ! i < tgrid p ! j"
  using assms by (simp add: valid_input_def sorted_wrt_iff_nth_less)

lemma static_pos:
  assumes v: "valid_input c p" and i: "i < length (rgrid p)"
  shows "0 < cs c p ! i" and "0 < OmegaK c p ! i" and "0 < rhog c p ! i"
    and "0 < st0 p ! i" and "0 < Z0 p ! i" and "0 < tgrowth c p ! i"
    and "0 < stfrag c p ! i"
proof -
  note sh = valid_shapes(1) [OF v]
  note n = valid_nth [OF v i]
  note sc = valid_scalars [OF v]
  show cs: "0 < cs c p ! i"
    using n sc by (simp add: static_nth [OF sh i])
  show om: "0 < OmegaK c p ! i"
    using n sc by (simp add: static_nth [OF sh i])
  show "0 < rhog c p ! i"
    using n cs om by (simp add: static_nth(3) [OF sh i])
  show "0 < st0 p ! i"
    using n sc by (simp add: static_nth(6) [OF sh i] a0_def)
  show z: "0 < Z0 p ! i"
    using n by (simp add: static_nth(7) [OF sh i])
  have "0 < (alpha p / 0.0001) powr 0.3333" "0 < (rgrid p ! i / au c) powr (- 0.3333)"
    using n sc by simp_all
  then show "0 < tgrowth c p ! i"
    using z om by (simp add: static_nth(8) [OF sh i])
  show "0 < stfrag c p ! i"
    using cs sc by (simp add: static_nth(5) [OF sh i])
qed

lemma dr_pos:
  assumes v: "valid_input c p" and i: "i < length (rgrid p)"
  shows "0 < dr p ! i"
proof -
  let ?n = "length (rgrid p)"
  note n2 = valid_shapes(2) [OF v]
  have d: "dr p ! i = rInt p ! (i + 1) - rInt p ! i"
    using n2 i by (rule dr_nth)
  consider "i = 0" "i + 1 < ?n" | "i = 0" "i + 1 = ?n" | "0 < i" "i + 1 < ?n"
    | "0 < i" "i + 1 = ?n"
    using i by linarith
  then show ?thesis
  proof cases
    case 1
    then have "rgrid p ! 0 < rgrid p ! 1"
      using valid_rgrid_mono [OF v, of 0 1] by simp
    then show ?thesis
      unfolding d using 1 n2 by (simp add: rInt_first rInt_mid)
  next
    case 2
    then show ?thesis using n2 by simp
  next
    case 3
    then have "rgrid p ! (i - 1) < rgrid p ! i" "rgrid p ! i < rgrid p ! (i + 1)"
      using valid_rgrid_mono [OF v, of "i - 1" i] valid_rgrid_mono [OF v, of i "i + 1"]
      by simp_all
    then show ?thesis
      unfolding d using 3 n2 by (simp add: rInt_mid)
  next
    case 4
    then have "rgrid p ! (i - 1) < rgrid p ! i"
      using valid_rgrid_mono [OF v, of "i - 1" i] i by simp
    moreover have "rInt p ! (i + 1) = 1.5 * rgrid p ! i - 0.5 * rgrid p ! (i - 1)"
    proof -
      have "i + 1 = ?n" "?n - 1 = i" "?n - 2 = i - 1" using 4 by simp_all
      then show ?thesis using rInt_last [OF n2] by simp
    qed
    ultimately show ?thesis
      unfolding d using 4 n2 i by (simp add: rInt_mid)
  qed
qed

lemma mass_terms_map:
  assumes "shapes_agree p" "2 \<le> length (rgrid p)"
  shows "mass_terms p ir =
    map (\<lambda>j. 2 * pi * rgrid p ! j * dr p ! j * SigmaDust p ! j) [ir..<length (rgrid p)]"
  using assms
  by (intro nth_equalityI)
    (simp_all add: mass_terms_def grid_lengths shapes_agree_def add.commute)

lemma massout0_sum:
  assumes "shapes_agree p" "2 \<le> length (rgrid p)"
  shows "sum_list (mass_terms p ir) =
    (\<Sum>j = ir..<length (rgrid p). 2 * pi * rgrid p ! j * dr p ! j * SigmaDust p ! j)"
  by (simp add: mass_terms_map [OF assms] interv_sum_list_conv_sum_set_nat)

lemma massout0_pos:
  assumes v: "valid_input c p" and i: "ir < length (rgrid p)"
  shows "0 < massout (run c p) ! 0 ! ir"
proof -
  have "0 < (\<Sum>j = ir..<length (rgrid p). 2 * pi * rgrid p ! j * dr p ! j * SigmaDust p ! j)"
  proof (rule sum_pos)
    show "{ir..<length (rgrid p)} \<noteq> {}" using i by simp
    fix j assume "j \<in> {ir..<length (rgrid p)}"
    then have j: "j < length (rgrid p)" by simp
    show "0 < 2 * pi * rgrid p ! j * dr p ! j * SigmaDust p ! j"
      using valid_nth [OF v j] dr_pos [OF v j] by simp
  qed simp
  then show ?thesis
    using valid_shapes [OF v] i by (simp add: run_massout0_nth massout0_sum)
qed

subsection \<open>The function on inputs of matching lengths\<close>

lemma bind_err_simps [simp]:
  "bind_err (Inr x) f = f x"
  "bind_err (Inl e) f = Inl e"
  by (simp_all add: bind_err_def)

lemma bind_err_eq_Inr:
  "bind_err m f = Inr y \<longleftrightarrow> (\<exists>x. m = Inr x \<and> f x = Inr y)"
  by (cases m) simp_all

lemma broadcast_same:
  "length xs = length ys \<Longrightarrow> broadcast f xs ys = Inr (map2 f xs ys)"
  by (simp add: broadcast_def)

lemma np_same:
  assumes "length xs = length ys"
  shows "np_add (Inr xs) (Inr ys) = Inr (arr_add xs ys)"
    and "np_sub (Inr xs) (Inr ys) = Inr (arr_sub xs ys)"
    and "np_mul (Inr xs) (Inr ys) = Inr (arr_mul xs ys)"
    and "np_div (Inr xs) (Inr ys) = Inr (arr_div xs ys)"
    and "np_minimum (Inr xs) (Inr ys) = Inr (arr_minimum xs ys)"
    and "np_maximum (Inr xs) (Inr ys) = Inr (arr_maximum xs ys)"
  using assms
  by (simp_all add: np_add_def np_sub_def np_mul_def np_div_def np_minimum_def np_maximum_def
      lift2_def broadcast_same arr_add_def arr_sub_def arr_mul_def arr_div_def
      arr_minimum_def arr_maximum_def)

lemma np_map_Inr [simp]: "np_map f (Inr xs) = Inr (map f xs)"
  by (simp add: np_map_def)

lemma np_getitem_nat: "i < length xs \<Longrightarrow> np_getitem xs (int i) = Inr (xs ! i)"
  by (simp add: np_getitem_def Let_def)

lemma np_getitem_ends:
  assumes "2 \<le> length xs"
  shows "np_getitem xs 0 = Inr (xs ! 0)"
    and "np_getitem xs 1 = Inr (xs ! 1)"
    and "np_getitem xs (- 1) = Inr (xs ! (length xs - 1))"
    and "np_getitem xs (- 2) = Inr (xs ! (length xs - 2))"
proof -
  have "xs \<noteq> []" using assms by auto
  then have n: "0 < int (length xs)" "1 < int (length xs)" using assms by simp_all
  show "np_getitem xs 0 = Inr (xs ! 0)" "np_getitem xs 1 = Inr (xs ! 1)"
    using n by (simp_all add: np_getitem_def Let_def)
  have "nat (int (length xs) - 1) = length xs - 1" "nat (int (length xs) - 2) = length xs - 2"
    by simp_all
  then show "np_getitem xs (- 1) = Inr (xs ! (length xs - 1))"
    "np_getitem xs (- 2) = Inr (xs ! (length xs - 2))"
    using n by (simp_all add: np_getitem_def Let_def)
qed

lemma np_setitem_first: "1 \<le> length xs \<Longrightarrow> np_setitem xs 0 v = Inr (xs[0 := v])"
  by (cases xs) (simp_all add: np_setitem_def Let_def)

lemma np_setitem_last:
  "1 \<le> length xs \<Longrightarrow> np_setitem xs (- 1) v = Inr (xs[length xs - 1 := v])"
proof -
  assume "1 \<le> length xs"
  then have "xs \<noteq> []" by auto
  then have "0 < int (length xs)" by simp
  moreover have "nat (int (length xs) - 1) = length xs - 1" by simp
  ultimately show ?thesis by (simp add: np_setitem_def Let_def)
qed

lemma np_set_inner_Inr:
  "2 \<le> length xs \<Longrightarrow> length v = length xs - 2 \<Longrightarrow>
    np_set_inner xs v = Inr (take 1 xs @ v @ drop (length xs - 1) xs)"
proof -
  assume a: "2 \<le> length xs" "length v = length xs - 2"
  then have "max 1 (length xs - 1) = length xs - 1" by simp
  then show ?thesis using a by (simp add: np_set_inner_def Let_def)
qed

lemma np_getrow_Inr: "i < length m \<Longrightarrow> np_getrow m i = Inr (m ! i)"
  by (simp add: np_getrow_def)

lemma np_setrow_Inr:
  "i < length m \<Longrightarrow> length v = length (m ! i) \<Longrightarrow> np_setrow m i v = Inr (m[i := v])"
  by (simp add: np_setrow_def)

lemma rhog_np_eq:
  assumes "shapes_agree p"
  shows "rhog_np c p = Inr (rhog c p)"
  using assms
  by (simp add: rhog_np_def rhog_def np_same static_lengths shapes_agree_def)

lemma pg_np_eq:
  assumes "shapes_agree p"
  shows "pg_np c p (rhog c p) = Inr (pg c p)"
  using assms
  by (simp add: pg_np_def pg_def np_same static_lengths)

lemma rInt_np_eq:
  assumes "2 \<le> length (rgrid p)"
  shows "rInt_np p = Inr (rInt p)"
proof -
  let ?r = "rgrid p" and ?n = "length (rgrid p)"
  define z1 where "z1 = (replicate (?n + 1) (0::real))[0 := 1.5 * ?r ! 0 - 0.5 * ?r ! 1]"
  define mid where "mid = map (\<lambda>x. 0.5 * x) (arr_add (drop 1 ?r) (butlast ?r))"
  define z2 where "z2 = take 1 z1 @ mid @ drop ?n z1"
  have l1: "length z1 = ?n + 1" by (simp add: z1_def)
  have lm: "length mid = ?n - 1" by (simp add: mid_def)
  have l2: "length z2 = ?n + 1" using assms by (simp add: z2_def l1 lm)
  have s1: "np_setitem (replicate (?n + 1) 0) 0 (1.5 * ?r ! 0 - 0.5 * ?r ! 1) = Inr z1"
    unfolding z1_def by (rule np_setitem_first) simp
  have s2: "np_map (\<lambda>x. 0.5 * x) (np_add (Inr (drop 1 ?r)) (Inr (butlast ?r))) = Inr mid"
    by (simp add: np_same mid_def)
  have s3: "np_set_inner z1 mid = Inr z2"
    using np_set_inner_Inr [of z1 mid] assms by (simp add: l1 lm z2_def)
  have s4: "np_setitem z2 (- 1) v = Inr (z2[?n := v])" for v
    using np_setitem_last [of z2 v] by (simp add: l2)
  have "rInt_np p = Inr (z2[?n := 1.5 * ?r ! (?n - 1) - 0.5 * ?r ! (?n - 2)])"
    unfolding rInt_np_def Let_def
    by (simp only: np_getitem_ends [OF assms] bind_err_simps s1 s2 s3 s4)
  moreover have "rInt p = z2[?n := 1.5 * ?r ! (?n - 1) - 0.5 * ?r ! (?n - 2)]"
    unfolding rInt_def Let_def z2_def z1_def mid_def ..
  ultimately show ?thesis by simp
qed

lemma dr_np_eq: "dr_np (rInt p) = Inr (dr p)"
  by (simp add: dr_np_def dr_def np_same)

lemma np_interp_eq:
  assumes "shapes_agree p" "2 \<le> length (rgrid p)"
  shows "np_interp (rInt p) (rgrid p) (pg c p) = Inr (pgInt c p)"
proof -
  have "rgrid p \<noteq> []" using assms(2) by auto
  then show ?thesis
    using assms by (simp add: np_interp_def pgInt_def static_lengths)
qed

lemma eta_np_eq:
  assumes "shapes_agree p" "2 \<le> length (rgrid p)"
  shows "eta_np c p (pgInt c p) (dr p) (rhog c p) = Inr (eta c p)"
  using assms
  by (simp add: eta_np_def eta_def np_same static_lengths grid_lengths)

lemma stdf_np_eq:
  assumes "shapes_agree p" "2 \<le> length (rgrid p)"
  shows "stdf_np c p (eta c p) = Inr (stdf c p)"
  using assms
  by (simp add: stdf_np_def stdf_def np_same static_lengths grid_lengths)

lemma Z0_np_eq:
  assumes "shapes_agree p"
  shows "Z0_np p = Inr (Z0 p)"
  using assms by (simp add: Z0_np_def Z0_def np_same shapes_agree_def)

lemma tgrowth_np_eq:
  assumes "shapes_agree p"
  shows "tgrowth_np c p (Z0 p) = Inr (tgrowth c p)"
  using assms
  by (simp add: tgrowth_np_def tgrowth_def np_same static_lengths)

lemma static_np_eq:
  assumes "shapes_agree p" "2 \<le> length (rgrid p)"
  shows "static_np c p =
    Inr \<lparr> s_dr = dr p, s_eta = eta c p, s_stfrag = stfrag c p, s_stdf = stdf c p,
          s_st0 = st0 p, s_Z0 = Z0 p, s_tgrowth = tgrowth c p \<rparr>"
  unfolding static_np_def
  by (simp only: rhog_np_eq [OF assms(1)] pg_np_eq [OF assms(1)] rInt_np_eq [OF assms(2)]
      dr_np_eq np_interp_eq [OF assms] eta_np_eq [OF assms] stdf_np_eq [OF assms]
      Z0_np_eq [OF assms(1)] tgrowth_np_eq [OF assms(1)] bind_err_simps)

lemma np_setitem2_Inr:
  "i < length m \<Longrightarrow> j < length (m ! i) \<Longrightarrow>
    np_setitem2 m i j v = Inr (m[i := (m ! i)[j := v]])"
  by (simp add: np_setitem2_def)

lemma mass_terms_np:
  assumes "shapes_agree p" "2 \<le> length (rgrid p)"
  shows "np_mul
      (np_mul (Inr (map (\<lambda>r. 2 * pi * r) (drop ir (rgrid p)))) (Inr (drop ir (dr p))))
      (Inr (drop ir (SigmaDust p))) = Inr (mass_terms p ir)"
  using assms
  by (simp add: np_same mass_terms_def grid_lengths shapes_agree_def)

lemma massout_init_np_fold:
  assumes sh: "shapes_agree p" "2 \<le> length (rgrid p)"
    and S: "s_dr S = dr p"
    and m: "1 \<le> length m" "length (m ! 0) = length (rgrid p)"
  shows "n \<le> length (rgrid p) \<Longrightarrow>
    foldl
      (\<lambda>acc ir. bind_err acc (\<lambda>m1.
        bind_err
          (np_mul
            (np_mul (Inr (map (\<lambda>r. 2 * pi * r) (drop ir (rgrid p)))) (Inr (drop ir (s_dr S))))
            (Inr (drop ir (SigmaDust p))))
          (\<lambda>terms. np_setitem2 m1 0 ir (sum_list terms))))
      (Inr m) [0..<n] =
    Inr (foldl (\<lambda>m ir. m[0 := (m ! 0)[ir := sum_list (mass_terms p ir)]]) m [0..<n])"
proof (induction n)
  case 0
  then show ?case by simp
next
  case (Suc n)
  let ?m' = "foldl (\<lambda>m ir. m[0 := (m ! 0)[ir := sum_list (mass_terms p ir)]]) m [0..<n]"
  have n: "n \<le> length (m ! 0)" "n < length (rgrid p)" using Suc.prems m by simp_all
  have pos: "0 < length m" using m(1) by (cases m) simp_all
  have m': "?m' = m[0 := map (\<lambda>ir. sum_list (mass_terms p ir)) [0..<n] @ drop n (m ! 0)]"
    using pos n(1) by (rule foldl_row_update)
  have "0 < length ?m'" "n < length (?m' ! 0)"
    using pos n m(2) by (simp_all add: m')
  then have "np_setitem2 ?m' 0 n v = Inr (?m'[0 := (?m' ! 0)[n := v]])" for v
    by (rule np_setitem2_Inr)
  then show ?case
    using Suc S by (simp add: mass_terms_np [OF sh])
qed

lemma massout_init_np_eq:
  assumes "shapes_agree p" "2 \<le> length (rgrid p)" "s_dr S = dr p" "1 \<le> m"
  shows "massout_init_np p S (zeros m (length (rgrid p))) =
    Inr (massout_init p (zeros m (length (rgrid p))))"
  unfolding massout_init_np_def massout_init_def
  using assms
  by (intro massout_init_np_fold) (simp_all add: zeros_def)

lemma drift_velocity_np_eq:
  assumes "shapes_agree p" "2 \<le> length (rgrid p)" "s_eta S = eta c p"
    and "length row = length (rgrid p)"
  shows "drift_velocity_np c p S row = Inr (drift_velocity c p row)"
  using assms
  by (simp add: drift_velocity_np_def drift_velocity_def np_same static_lengths grid_lengths)

lemma initial_np_eq:
  assumes sh: "shapes_agree p" "2 \<le> length (rgrid p)" "1 \<le> length (tgrid p)"
    and S: "S = \<lparr> s_dr = dr p, s_eta = eta c p, s_stfrag = stfrag c p, s_stdf = stdf c p,
          s_st0 = st0 p, s_Z0 = Z0 p, s_tgrowth = tgrowth c p \<rparr>"
  shows "initial_np c p S = Inr (initial c p)"
proof -
  let ?m = "length (tgrid p)" and ?n = "length (rgrid p)"
  have z: "0 < length (zeros ?m ?n)" "length (zeros ?m ?n ! 0) = ?n"
    using sh(3) by (cases "tgrid p"; simp add: zeros_def)+
  have mo: "massout_init_np p S (zeros ?m ?n) = Inr (massout_init p (zeros ?m ?n))"
    using sh(1,2) _ sh(3) by (rule massout_init_np_eq) (simp add: S)
  have l0: "length (st0 p) = ?n" using sh(1) by (rule static_lengths)
  have s1: "np_setrow (zeros ?m ?n) 0 (s_st0 S) = Inr ((zeros ?m ?n)[0 := st0 p])"
    using z l0 by (simp add: np_setrow_Inr S)
  have g1: "np_getrow ((zeros ?m ?n)[0 := st0 p]) 0 = Inr (st0 p)"
    using z by (simp add: np_getrow_Inr)
  have r0: "(zeros ?m ?n)[0 := st0 p] ! 0 = st0 p"
    using z by simp
  have dv: "drift_velocity_np c p S (st0 p) = Inr (drift_velocity c p (st0 p))"
    using sh(1,2) _ l0 by (rule drift_velocity_np_eq) (simp add: S)
  have ldv: "length (drift_velocity c p (st0 p)) = ?n"
    using sh(1,2) l0 by (rule length_drift_velocity)
  have fr: "np_mul (np_mul (Inr (map (\<lambda>r. 2 * pi * r) (rgrid p)))
        (Inr (drift_velocity c p (st0 p)))) (Inr (SigmaDust p)) =
      Inr (arr_mul (arr_mul (map (\<lambda>r. 2 * pi * r) (rgrid p)) (drift_velocity c p (st0 p)))
        (SigmaDust p))"
    using ldv sh(1) by (simp add: np_same shapes_agree_def)
  have s2: "np_setrow (zeros ?m ?n) 0
        (arr_mul (arr_mul (map (\<lambda>r. 2 * pi * r) (rgrid p)) (drift_velocity c p (st0 p)))
          (SigmaDust p)) =
      Inr ((zeros ?m ?n)[0 :=
        arr_mul (arr_mul (map (\<lambda>r. 2 * pi * r) (rgrid p)) (drift_velocity c p (st0 p)))
          (SigmaDust p)])"
    using z ldv sh(1) by (simp add: np_setrow_Inr shapes_agree_def)
  show ?thesis
    unfolding initial_np_def initial_def Let_def
    by (simp only: mo s1 g1 r0 dv fr s2 bind_err_simps)
qed

lemma step_np_eq:
  assumes sh: "shapes_agree p" "2 \<le> length (rgrid p)"
    and it: "1 \<le> it" "it < length (tgrid p)"
    and ws: "well_shaped (length (tgrid p)) (length (rgrid p)) s"
    and S: "S = \<lparr> s_dr = dr p, s_eta = eta c p, s_stfrag = stfrag c p, s_stdf = stdf c p,
          s_st0 = st0 p, s_Z0 = Z0 p, s_tgrowth = tgrowth c p \<rparr>"
  shows "step_np c p S s it = Inr (step c p s it)"
proof -
  let ?n = "length (rgrid p)" and ?m = "length (tgrid p)"
  have len: "length (st s) = ?m" "length (flux s) = ?m" "length (massout s) = ?m"
    using ws by (simp_all add: well_shaped_def)
  have row: "length (st s ! j) = ?n" "length (flux s ! j) = ?n"
    "length (massout s ! j) = ?n" if "j < ?m" for j
    using ws that by (simp_all add: well_shaped_def)
  have j: "it - 1 < ?m" "0 < ?m" "it \<noteq> 0" using it by (cases "tgrid p"; simp)+
  note sl = static_lengths [OF sh(1)] grid_lengths [OF sh]
  have sd: "length (SigmaDust p) = ?n" using sh(1) by (simp add: shapes_agree_def)
  have Sf: "s_eta S = eta c p" "s_stfrag S = stfrag c p" "s_stdf S = stdf c p"
    "s_st0 S = st0 p" "s_Z0 S = Z0 p" "s_tgrowth S = tgrowth c p"
    by (simp_all add: S)
  define t1 where "t1 = tgrid p ! it"
  define t0 where "t0 = tgrid p ! (it - 1)"
  define mrow where "mrow = arr_sub (massout s ! (it - 1)) (map (\<lambda>f. f * (t1 - t0)) (flux s ! (it - 1)))"
  define massout1 where "massout1 = (massout s)[it := mrow]"
  define Z where "Z = arr_mul (Z0 p) (arr_div (massout1 ! it) (massout1 ! 0))"
  define stini where "stini = arr_mul (st0 p) (map (\<lambda>tg. exp (t1 / tg)) (tgrowth c p))"
  define stdrift where "stdrift = map (\<lambda>x. x / fff) (arr_div Z (map abs (eta c p)))"
  define st1 where "st1 = (st s)[it := arr_minimum (arr_minimum (stfrag c p) (stdf c p)) stini]"
  define st2 where "st2 = st1[it := arr_minimum (st1 ! it) stdrift]"
  define st3 where "st3 = st2[it := arr_maximum (st2 ! it) (st0 p)]"
  define vv1 where "vv1 = drift_velocity c p (st3 ! it)"
  define vv2 where "vv2 = arr_minimum vv1 (map (\<lambda>x. x / fff) (arr_div (rgrid p) (tgrowth c p)))"
  define frow where "frow =
    arr_mul (arr_mul (arr_mul (map (\<lambda>r. 2 * pi * r) (rgrid p)) vv2) (SigmaDust p))
      (arr_div (massout1 ! it) (massout1 ! 0))"
  have pure: "step c p s it =
      \<lparr> st = st3, flux = (flux s)[it := frow], massout = massout1, vv = vv2 \<rparr>"
    unfolding step_def Let_def frow_def vv2_def vv1_def st3_def st2_def st1_def stdrift_def
      stini_def Z_def massout1_def mrow_def t1_def t0_def ..
  have lmrow: "length mrow = ?n"
    using row [OF j(1)] by (simp add: mrow_def)
  have lm1: "length massout1 = ?m" "length (massout1 ! it) = ?n" "length (massout1 ! 0) = ?n"
    using len it lmrow row [OF j(2)] j(3) by (simp_all add: massout1_def)
  have lZ: "length Z = ?n" using lm1 sl by (simp add: Z_def)
  have lstini: "length stini = ?n" using sl by (simp add: stini_def)
  have lstdrift: "length stdrift = ?n" using lZ sl by (simp add: stdrift_def)
  have lst1: "length st1 = ?m" "length (st1 ! it) = ?n"
    using len it lstini sl by (simp_all add: st1_def)
  have lst2: "length st2 = ?m" "length (st2 ! it) = ?n"
    using lst1 it lstdrift by (simp_all add: st2_def)
  have lst3: "length st3 = ?m" "length (st3 ! it) = ?n"
    using lst2 it sl by (simp_all add: st3_def)
  have lvv1: "length vv1 = ?n"
    unfolding vv1_def using sh lst3(2) by (rule length_drift_velocity)
  have lvv2: "length vv2 = ?n" using lvv1 sl by (simp add: vv2_def)
  have lfrow: "length frow = ?n" using lvv2 sd lm1 by (simp add: frow_def)
  have g1: "np_getrow (massout s) (it - 1) = Inr (massout s ! (it - 1))"
    "np_getrow (flux s) (it - 1) = Inr (flux s ! (it - 1))"
    using j(1) len by (simp_all add: np_getrow_Inr)
  have g2: "np_getitem (tgrid p) (int it) = Inr t1"
    unfolding t1_def using it(2) by (rule np_getitem_nat)
  have eq: "int it - 1 = int (it - 1)" using it(1) by simp
  have g3: "np_getitem (tgrid p) (int it - 1) = Inr t0"
    unfolding t0_def eq by (rule np_getitem_nat [OF j(1)])
  have e1: "np_sub (Inr (massout s ! (it - 1))) (Inr (map (\<lambda>f. f * (t1 - t0)) (flux s ! (it - 1)))) =
      Inr mrow"
    using row [OF j(1)] by (simp add: np_same mrow_def)
  have e2: "np_setrow (massout s) it mrow = Inr massout1"
    using it len lmrow row [OF it(2)] by (simp add: np_setrow_Inr massout1_def)
  have e3: "np_getrow massout1 it = Inr (massout1 ! it)" "np_getrow massout1 0 = Inr (massout1 ! 0)"
    using lm1 it j(2) by (simp_all add: np_getrow_Inr)
  have e4: "np_mul (Inr (Z0 p)) (np_div (Inr (massout1 ! it)) (Inr (massout1 ! 0))) = Inr Z"
    using lm1 sl by (simp add: np_same Z_def)
  have e5: "np_mul (Inr (st0 p)) (Inr (map (\<lambda>tg. exp (t1 / tg)) (tgrowth c p))) = Inr stini"
    using sl by (simp add: np_same stini_def)
  have e6: "np_map (\<lambda>x. x / fff) (np_div (Inr Z) (Inr (map abs (eta c p)))) = Inr stdrift"
    using lZ sl by (simp add: np_same stdrift_def)
  have e7: "np_minimum (np_minimum (Inr (stfrag c p)) (Inr (stdf c p))) (Inr stini) =
      Inr (arr_minimum (arr_minimum (stfrag c p) (stdf c p)) stini)"
    using lstini sl by (simp add: np_same)
  have e8: "np_setrow (st s) it (arr_minimum (arr_minimum (stfrag c p) (stdf c p)) stini) = Inr st1"
    using it len lstini sl row [OF it(2)] by (simp add: np_setrow_Inr st1_def)
  have e9: "np_getrow st1 it = Inr (st1 ! it)"
    using lst1 it by (simp add: np_getrow_Inr)
  have e10: "np_minimum (Inr (st1 ! it)) (Inr stdrift) = Inr (arr_minimum (st1 ! it) stdrift)"
    using lst1 lstdrift by (simp add: np_same)
  have e11: "np_setrow st1 it (arr_minimum (st1 ! it) stdrift) = Inr st2"
    using it lst1 lstdrift by (simp add: np_setrow_Inr st2_def)
  have e12: "np_getrow st2 it = Inr (st2 ! it)"
    using lst2 it by (simp add: np_getrow_Inr)
  have e13: "np_maximum (Inr (st2 ! it)) (Inr (st0 p)) = Inr (arr_maximum (st2 ! it) (st0 p))"
    using lst2 sl by (simp add: np_same)
  have e14: "np_setrow st2 it (arr_maximum (st2 ! it) (st0 p)) = Inr st3"
    using it lst2 sl by (simp add: np_setrow_Inr st3_def)
  have e15: "np_getrow st3 it = Inr (st3 ! it)"
    using lst3 it by (simp add: np_getrow_Inr)
  have e16: "drift_velocity_np c p S (st3 ! it) = Inr vv1"
    unfolding vv1_def using sh Sf(1) lst3(2) by (rule drift_velocity_np_eq)
  have e17: "np_minimum (Inr vv1)
        (np_map (\<lambda>x. x / fff) (np_div (Inr (rgrid p)) (Inr (tgrowth c p)))) = Inr vv2"
    using lvv1 sl by (simp add: np_same vv2_def)
  have e18: "np_mul
        (np_mul (np_mul (Inr (map (\<lambda>r. 2 * pi * r) (rgrid p))) (Inr vv2)) (Inr (SigmaDust p)))
        (np_div (Inr (massout1 ! it)) (Inr (massout1 ! 0))) = Inr frow"
    using lvv2 sd lm1 by (simp add: np_same frow_def)
  have e19: "np_setrow (flux s) it frow = Inr ((flux s)[it := frow])"
    using it len lfrow row [OF it(2)] by (simp add: np_setrow_Inr)
  show ?thesis
    unfolding step_np_def pure Sf
    by (simp only: g1 g2 g3 e1 e2 e3 e4 e5 e6 e7 e8 e9 e10 e11 e12 e13 e14 e15 e16 e17 e18 e19
        bind_err_simps)
qed

lemma time_loop_np_eq:
  assumes sh: "shapes_agree p" "2 \<le> length (rgrid p)"
    and ws: "well_shaped (length (tgrid p)) (length (rgrid p)) s"
    and S: "S = \<lparr> s_dr = dr p, s_eta = eta c p, s_stfrag = stfrag c p, s_stdf = stdf c p,
          s_st0 = st0 p, s_Z0 = Z0 p, s_tgrowth = tgrowth c p \<rparr>"
  shows "n \<le> length (tgrid p) \<Longrightarrow> time_loop_np c p S s n = Inr (time_loop c p s n)"
proof (induction n)
  case 0
  then show ?case by (simp add: time_loop_np_def time_loop_def)
next
  case (Suc n)
  show ?case
  proof (cases "1 \<le> n")
    case True
    have ws': "well_shaped (length (tgrid p)) (length (rgrid p)) (time_loop c p s n)"
      using sh ws Suc.prems by (intro time_loop_well_shaped) simp_all
    have "time_loop_np c p S s (Suc n) =
        bind_err (time_loop_np c p S s n) (\<lambda>s1. step_np c p S s1 n)"
      using True by (simp add: time_loop_np_def)
    also have "\<dots> = step_np c p S (time_loop c p s n) n"
      using Suc by simp
    also have "\<dots> = Inr (step c p (time_loop c p s n) n)"
      using sh True _ ws' S by (rule step_np_eq) (use Suc.prems in simp)
    finally show ?thesis
      using True by (simp add: time_loop_Suc)
  next
    case False
    then show ?thesis by (simp add: time_loop_np_def time_loop_def)
  qed
qed

lemma pebble_predictor_returns:
  assumes "shapes_agree p" "2 \<le> length (rgrid p)" "1 \<le> length (tgrid p)"
  shows "pebble_predictor c p = Inr (st (run c p), flux (run c p))"
proof -
  let ?S = "\<lparr> s_dr = dr p, s_eta = eta c p, s_stfrag = stfrag c p, s_stdf = stdf c p,
          s_st0 = st0 p, s_Z0 = Z0 p, s_tgrowth = tgrowth c p \<rparr>"
  have a: "static_np c p = Inr ?S"
    using assms(1,2) by (rule static_np_eq)
  have b: "initial_np c p ?S = Inr (initial c p)"
    using assms by (rule initial_np_eq) simp
  have ws: "well_shaped (length (tgrid p)) (length (rgrid p)) (initial c p)"
    using assms by (rule initial_well_shaped)
  have c: "time_loop_np c p ?S (initial c p) (length (tgrid p)) = Inr (run c p)"
    unfolding run_def using assms(1,2) ws by (rule time_loop_np_eq) simp_all
  show ?thesis
    unfolding pebble_predictor_def by (simp only: a b c bind_err_simps)
qed

lemma foldl_bind_Inl:
  "foldl (\<lambda>acc x. bind_err acc (g x)) (Inl e) xs = Inl e"
  by (induction xs) simp_all

lemma broadcast_Inr_D:
  assumes "broadcast f xs ys = Inr zs"
  shows "length xs = length ys \<or> length xs = 1 \<or> length ys = 1"
    and "length zs = (if length xs = 1 then length ys else length xs)"
  using assms by (auto simp: broadcast_def split: if_splits)

lemma lift2_Inr_D:
  assumes "lift2 f (Inr xs) (Inr ys) = Inr zs"
  shows "length xs = length ys \<or> length xs = 1 \<or> length ys = 1"
    and "length zs = (if length xs = 1 then length ys else length xs)"
  using assms broadcast_Inr_D [of f xs ys zs] by (simp_all add: lift2_def)

lemma rInt_np_short:
  assumes "length (rgrid p) < 2"
  shows "rInt_np p = Inl IndexError"
proof (cases "rgrid p")
  case Nil
  then show ?thesis by (simp add: rInt_np_def np_getitem_def)
next
  case (Cons a xs)
  then have "xs = []" using assms by simp
  with Cons show ?thesis by (simp add: rInt_np_def np_getitem_def)
qed

lemma static_np_short:
  assumes "length (rgrid p) < 2"
  shows "\<exists>e. static_np c p = Inl e"
    and "shapes_agree p \<Longrightarrow> static_np c p = Inl IndexError"
proof -
  show "\<exists>e. static_np c p = Inl e"
    unfolding static_np_def rInt_np_short [OF assms]
    by (cases "rhog_np c p"; simp; cases "pg_np c p (projr (rhog_np c p))"; simp)
  assume "shapes_agree p"
  then show "static_np c p = Inl IndexError"
    unfolding static_np_def rInt_np_short [OF assms]
    by (simp add: rhog_np_eq pg_np_eq)
qed

lemma massout_init_np_empty:
  assumes "2 \<le> length (rgrid p)"
  shows "\<exists>e. massout_init_np p S (zeros 0 n) = Inl e"
    and "shapes_agree p \<Longrightarrow> s_dr S = dr p \<Longrightarrow> massout_init_np p S (zeros 0 n) = Inl IndexError"
proof -
  have "0 < length (rgrid p)" using assms by linarith
  then have upt: "[0..<length (rgrid p)] = 0 # [1..<length (rgrid p)]"
    unfolding One_nat_def by (rule upt_conv_Cons)
  let ?t = "np_mul
      (np_mul (Inr (map (\<lambda>r. 2 * pi * r) (drop 0 (rgrid p)))) (Inr (drop 0 (s_dr S))))
      (Inr (drop 0 (SigmaDust p)))"
  have first: "\<exists>e. bind_err ?t (\<lambda>terms. np_setitem2 (zeros 0 n) 0 0 (sum_list terms)) = Inl e"
    by (cases ?t) (simp_all add: np_setitem2_def zeros_def)
  then obtain e where e: "bind_err ?t (\<lambda>terms. np_setitem2 (zeros 0 n) 0 0 (sum_list terms)) = Inl e"
    by blast
  show "\<exists>e. massout_init_np p S (zeros 0 n) = Inl e"
    unfolding massout_init_np_def upt
    by (simp only: foldl_Cons bind_err_simps e foldl_bind_Inl) blast
  assume sh: "shapes_agree p" and S: "s_dr S = dr p"
  have "?t = Inr (mass_terms p 0)"
    unfolding S using sh assms by (rule mass_terms_np)
  then have "bind_err ?t (\<lambda>terms. np_setitem2 (zeros 0 n) 0 0 (sum_list terms)) = Inl IndexError"
    by (simp add: np_setitem2_def zeros_def)
  then show "massout_init_np p S (zeros 0 n) = Inl IndexError"
    unfolding massout_init_np_def upt
    by (simp only: foldl_Cons bind_err_simps foldl_bind_Inl)
qed

lemma pebble_predictor_fails:
  assumes "length (rgrid p) < 2 \<or> length (tgrid p) = 0"
  shows "\<exists>e. pebble_predictor c p = Inl e"
    and "shapes_agree p \<Longrightarrow> pebble_predictor c p = Inl IndexError"
proof -
  show "\<exists>e. pebble_predictor c p = Inl e"
  proof (cases "length (rgrid p) < 2")
    case True
    then show ?thesis
      using static_np_short(1) [OF True, of c] by (auto simp: pebble_predictor_def)
  next
    case False
    then have n: "2 \<le> length (rgrid p)" and m: "length (tgrid p) = 0" using assms by simp_all
    show ?thesis
    proof (cases "static_np c p")
      case (Inl e)
      then show ?thesis by (simp add: pebble_predictor_def)
    next
      case (Inr S)
      obtain e where "massout_init_np p S (zeros 0 (length (rgrid p))) = Inl e"
        using massout_init_np_empty(1) [OF n] by blast
      then have "initial_np c p S = Inl e"
        by (simp add: initial_np_def Let_def m)
      then show ?thesis using Inr by (simp add: pebble_predictor_def)
    qed
  qed
  assume sh: "shapes_agree p"
  show "pebble_predictor c p = Inl IndexError"
  proof (cases "length (rgrid p) < 2")
    case True
    then show ?thesis
      using static_np_short(2) [OF True sh, of c] by (simp add: pebble_predictor_def)
  next
    case False
    then have n: "2 \<le> length (rgrid p)" and m: "length (tgrid p) = 0" using assms by simp_all
    let ?S = "\<lparr> s_dr = dr p, s_eta = eta c p, s_stfrag = stfrag c p, s_stdf = stdf c p,
          s_st0 = st0 p, s_Z0 = Z0 p, s_tgrowth = tgrowth c p \<rparr>"
    have a: "static_np c p = Inr ?S" using sh n by (rule static_np_eq)
    have "massout_init_np p ?S (zeros 0 (length (rgrid p))) = Inl IndexError"
      using n sh by (rule massout_init_np_empty(2)) simp
    then have "initial_np c p ?S = Inl IndexError"
      by (simp add: initial_np_def Let_def m)
    then show ?thesis using a by (simp add: pebble_predictor_def)
  qed
qed

text \<open>A run that returns has broadcast every per-radius array against the radial grid.\<close>

lemma pebble_predictor_Inr_lengths:
  assumes "pebble_predictor c p = Inr r"
  shows "2 \<le> length (rgrid p)" and "1 \<le> length (tgrid p)"
    and "length (SigmaGas p) = length (rgrid p) \<or> length (SigmaGas p) = 1"
    and "length (T p) = length (rgrid p) \<or> length (T p) = 1"
    and "length (SigmaDust p) = length (rgrid p) \<or> length (SigmaDust p) = 1"
proof -
  have "\<not> (length (rgrid p) < 2 \<or> length (tgrid p) = 0)"
    using pebble_predictor_fails(1) [of p c] assms by auto
  then show n: "2 \<le> length (rgrid p)" and "1 \<le> length (tgrid p)"
    by (cases "tgrid p"; simp)+
  obtain S where S: "static_np c p = Inr S"
    using assms by (auto simp: pebble_predictor_def bind_err_eq_Inr)
  then obtain rhog1 Z01 tg where rh: "rhog_np c p = Inr rhog1" and z: "Z0_np p = Inr Z01"
    and tg: "tgrowth_np c p Z01 = Inr tg"
    by (auto simp: static_np_def bind_err_eq_Inr)
  obtain a where a: "lift2 (*) (Inr (SigmaGas p)) (Inr (OmegaK c p)) = Inr a"
    and b: "lift2 (/) (Inr a) (Inr (map (\<lambda>x. sqrt (2 * pi) * x) (cs c p))) = Inr rhog1"
    using rh by (auto simp: rhog_np_def np_div_def np_mul_def lift2_def bind_err_eq_Inr)
  have lo: "length (OmegaK c p) = length (rgrid p)" by (simp add: OmegaK_def)
  show sg: "length (SigmaGas p) = length (rgrid p) \<or> length (SigmaGas p) = 1"
    using lift2_Inr_D(1) [OF a] n lo by auto
  have la: "length a = length (rgrid p)"
    using lift2_Inr_D(2) [OF a] sg lo by auto
  show "length (T p) = length (rgrid p) \<or> length (T p) = 1"
    using lift2_Inr_D(1) [OF b] n la by (auto simp: cs_def)
  have z': "lift2 (/) (Inr (SigmaDust p)) (Inr (SigmaGas p)) = Inr Z01"
    using z by (simp add: Z0_np_def np_div_def)
  obtain d where d: "lift2 (*) (Inr (map (\<lambda>z. (alpha p / 0.0001) powr 0.3333 * z) Z01))
      (Inr (OmegaK c p)) = Inr d"
    using tg by (auto simp: tgrowth_np_def np_mul_def np_map_def lift2_def bind_err_eq_Inr)
  have lz: "length Z01 = length (rgrid p) \<or> length Z01 = 1"
    using lift2_Inr_D(1) [OF d] n lo by auto
  show "length (SigmaDust p) = length (rgrid p) \<or> length (SigmaDust p) = 1"
    using lift2_Inr_D [OF z'] lz sg by (auto split: if_splits)
qed

lemma lift2_succeeds:
  assumes "length xs = length ys \<or> length xs = 1 \<or> length ys = 1"
  shows "\<exists>zs. lift2 f (Inr xs) (Inr ys) = Inr zs \<and>
    length zs = (if length xs = 1 then length ys else length xs)"
  using assms by (auto simp: lift2_def broadcast_def)

text \<open>With a temperature array of one entry the static fields are computed by broadcasting.\<close>

lemma isothermal_static:
  "\<exists>S. static_np astropy_cgs isothermal_disk = Inr S \<and> length (s_dr S) = 2 \<and>
    length (s_eta S) = 2 \<and> length (s_st0 S) = 2"
proof -
  let ?c = astropy_cgs and ?p = isothermal_disk
  have len: "length (rgrid ?p) = 2" "length (SigmaGas ?p) = 2" "length (SigmaDust ?p) = 2"
    "length (T ?p) = 1" "length (OmegaK ?c ?p) = 2" "length (cs ?c ?p) = 1"
    "length (st0 ?p) = 2"
    by (simp_all add: isothermal_disk_def OmegaK_def cs_def st0_def)
  have n: "2 \<le> length (rgrid ?p)" using len by simp
  obtain a where a: "lift2 (*) (Inr (SigmaGas ?p)) (Inr (OmegaK ?c ?p)) = Inr a" "length a = 2"
    using lift2_succeeds [of "SigmaGas ?p" "OmegaK ?c ?p" "(*)"] len by auto
  obtain rhog1 where rh: "lift2 (/) (Inr a) (Inr (map (\<lambda>x. sqrt (2 * pi) * x) (cs ?c ?p))) = Inr rhog1"
    "length rhog1 = 2"
    using lift2_succeeds [of a "map (\<lambda>x. sqrt (2 * pi) * x) (cs ?c ?p)" "(/)"] len a(2) by auto
  have rhog: "rhog_np ?c ?p = Inr rhog1"
    by (simp add: rhog_np_def np_div_def np_mul_def a rh)
  obtain pg1 where pg: "pg_np ?c ?p rhog1 = Inr pg1" "length pg1 = 2"
    using lift2_succeeds [of rhog1 "map (\<lambda>x. x ^ 2) (cs ?c ?p)" "(*)"] len rh(2)
    by (auto simp: pg_np_def np_mul_def)
  have ri: "rInt_np ?p = Inr (rInt ?p)" using n by (rule rInt_np_eq)
  have lri: "length (rInt ?p) = 3" using length_rInt [OF n] len by simp
  have ldr: "length (dr ?p) = 2" by (simp add: dr_def lri)
  have pi: "np_interp (rInt ?p) (rgrid ?p) pg1 = Inr (map (\<lambda>x. interp x (rgrid ?p) pg1) (rInt ?p))"
    using len pg(2) by (auto simp: np_interp_def)
  let ?pgInt = "map (\<lambda>x. interp x (rgrid ?p) pg1) (rInt ?p)"
  have e: "eta_np ?c ?p ?pgInt (dr ?p) rhog1 =
      Inr (arr_div (arr_div (arr_sub (drop 1 ?pgInt) (butlast ?pgInt)) (dr ?p))
        (arr_mul (arr_mul (map (\<lambda>x. 2 * x) rhog1) (map (\<lambda>x. x ^ 2) (OmegaK ?c ?p)))
          (rgrid ?p)))"
    unfolding eta_np_def using len lri ldr rh(2) by (simp add: np_same)
  let ?eta = "arr_div (arr_div (arr_sub (drop 1 ?pgInt) (butlast ?pgInt)) (dr ?p))
        (arr_mul (arr_mul (map (\<lambda>x. 2 * x) rhog1) (map (\<lambda>x. x ^ 2) (OmegaK ?c ?p)))
          (rgrid ?p))"
  have le: "length ?eta = 2" using len lri ldr rh(2) by simp
  have sd: "\<exists>v. stdf_np ?c ?p ?eta = Inr v"
    unfolding stdf_np_def using len le by (simp add: np_same)
  then obtain stdf1 where sd: "stdf_np ?c ?p ?eta = Inr stdf1" by blast
  have z: "Z0_np ?p = Inr (arr_div (SigmaDust ?p) (SigmaGas ?p))"
    unfolding Z0_np_def using len by (simp add: np_same)
  have "\<exists>v. tgrowth_np ?c ?p (arr_div (SigmaDust ?p) (SigmaGas ?p)) = Inr v"
    unfolding tgrowth_np_def using len by (simp add: np_same)
  then obtain tg where tg: "tgrowth_np ?c ?p (arr_div (SigmaDust ?p) (SigmaGas ?p)) = Inr tg"
    by blast
  have "static_np ?c ?p = Inr \<lparr> s_dr = dr ?p, s_eta = ?eta, s_stfrag = stfrag ?c ?p,
      s_stdf = stdf1, s_st0 = st0 ?p,
      s_Z0 = arr_div (SigmaDust ?p) (SigmaGas ?p), s_tgrowth = tg \<rparr>"
    unfolding static_np_def
    by (simp only: rhog pg ri dr_np_eq pi e sd z tg bind_err_simps)
  then show ?thesis using ldr le len by simp
qed

lemma isothermal_returns: "\<exists>St Fl. pebble_predictor astropy_cgs isothermal_disk = Inr (St, Fl)"
proof -
  let ?c = astropy_cgs and ?p = isothermal_disk
  obtain S where S: "static_np ?c ?p = Inr S"
    and l: "length (s_dr S) = 2" "length (s_eta S) = 2" "length (s_st0 S) = 2"
    using isothermal_static by blast
  have len: "length (rgrid ?p) = 2" "length (tgrid ?p) = 1" "length (SigmaDust ?p) = 2"
    "length (OmegaK ?c ?p) = 2"
    by (simp_all add: isothermal_disk_def OmegaK_def)
  have up: "[0..<length (rgrid ?p)] = [0, 1]"
    unfolding len by (simp add: upt_rec)
  have m: "\<exists>m. massout_init_np ?p S (zeros 1 2) = Inr m"
    unfolding massout_init_np_def up
    using l len by (simp add: np_same np_setitem2_def zeros_def)
  then obtain mo where mo: "massout_init_np ?p S (zeros 1 2) = Inr mo" by blast
  have s1: "np_setrow (zeros 1 2) 0 (s_st0 S) = Inr ((zeros 1 2)[0 := s_st0 S])"
    using l by (simp add: np_setrow_def zeros_def)
  have g1: "np_getrow ((zeros 1 2)[0 := s_st0 S]) 0 = Inr (s_st0 S)"
    by (simp add: np_getrow_def zeros_def)
  have "\<exists>v. drift_velocity_np ?c ?p S (s_st0 S) = Inr v \<and> length v = 2"
    unfolding drift_velocity_np_def using l len by (simp add: np_same)
  then obtain vv1 where dv: "drift_velocity_np ?c ?p S (s_st0 S) = Inr vv1" "length vv1 = 2"
    by blast
  have "\<exists>v. np_mul (np_mul (Inr (map (\<lambda>r. 2 * pi * r) (rgrid ?p))) (Inr vv1))
      (Inr (SigmaDust ?p)) = Inr v \<and> length v = 2"
    using dv(2) len by (simp add: np_same)
  then obtain frow where fr: "np_mul (np_mul (Inr (map (\<lambda>r. 2 * pi * r) (rgrid ?p))) (Inr vv1))
      (Inr (SigmaDust ?p)) = Inr frow" "length frow = 2"
    by blast
  have s2: "np_setrow (zeros 1 2) 0 frow = Inr ((zeros 1 2)[0 := frow])"
    using fr(2) by (simp add: np_setrow_def zeros_def)
  have "\<exists>s. initial_np ?c ?p S = Inr s"
    unfolding initial_np_def Let_def len
    by (simp only: mo s1 g1 dv fr s2 bind_err_simps) blast
  then obtain s where s: "initial_np ?c ?p S = Inr s" by blast
  have "time_loop_np ?c ?p S s (length (tgrid ?p)) = Inr s"
    by (simp add: time_loop_np_def len)
  then show ?thesis
    unfolding pebble_predictor_def by (simp add: S s)
qed

subsection \<open>The result on well-shaped input\<close>

lemma valid_example: "valid_input astropy_cgs example_disk"
  by (simp add: valid_input_def astropy_cgs_def example_disk_def shapes_agree_def)

lemma drift_law_le:
  fixes b x :: real
  assumes "0 \<le> b"
  shows "2 * b * x / (1 + x ^ 2) \<le> b"
proof -
  have "0 \<le> (x - 1) ^ 2" by simp
  then have "2 * x \<le> 1 + x ^ 2"
    by (simp add: power2_eq_square algebra_simps)
  moreover have pos: "0 < 1 + x ^ 2"
    by (simp add: add_pos_nonneg)
  ultimately have "2 * x / (1 + x ^ 2) \<le> 1"
    by (simp add: divide_le_eq)
  then have "b * (2 * x / (1 + x ^ 2)) \<le> b * 1"
    using assms by (rule mult_left_mono)
  then show ?thesis by (simp add: mult.assoc mult.left_commute)
qed

lemma valid_fragile: "valid_input astropy_cgs fragile_disk"
  by (simp add: valid_input_def astropy_cgs_def fragile_disk_def example_disk_def
      shapes_agree_def)

lemma fragile_stfrag_lt_st0:
  "stfrag astropy_cgs fragile_disk ! 0 < st0 fragile_disk ! 0"
proof -
  have "stfrag astropy_cgs fragile_disk ! 0 < 1 / 10 ^ 6"
    by (simp add: stfrag_def cs_def astropy_cgs_def fragile_disk_def example_disk_def)
  moreover have "1 / 10 ^ 6 < st0 fragile_disk ! 0"
    using pi_ge_two by (simp add: st0_def a0_def fragile_disk_def example_disk_def)
  ultimately show ?thesis by simp
qed

subsection \<open>The pressure gradient\<close>

lemma valid_bump: "valid_input astropy_cgs pressure_bump"
  by (simp add: valid_input_def astropy_cgs_def pressure_bump_def shapes_agree_def)

lemma sqrt_64: "sqrt 64 = 8"
  using real_sqrt_abs [of 8] by simp

lemma OmegaK_outer:
  assumes "rgrid p = [r, 4 * r]" "0 < r"
  shows "OmegaK c p ! 1 = OmegaK c p ! 0 / 8"
proof -
  have "Grav c * Mstar p / (4 * r) ^ 3 = Grav c * Mstar p / r ^ 3 / 64"
    by (simp add: power_mult_distrib)
  then have "sqrt (Grav c * Mstar p / (4 * r) ^ 3) = sqrt (Grav c * Mstar p / r ^ 3) / 8"
    by (simp only: real_sqrt_divide sqrt_64)
  then show ?thesis
    using assms by (simp add: OmegaK_def)
qed

lemma bump_grid: "rgrid pressure_bump = [1.5 * 10 ^ 13, 4 * (1.5 * 10 ^ 13)]"
  by (simp add: pressure_bump_def)

lemma bump_pg_equal: "pg astropy_cgs pressure_bump ! 1 = pg astropy_cgs pressure_bump ! 0"
proof -
  note sh = valid_shapes(1) [OF valid_bump]
  have i: "0 < length (rgrid pressure_bump)" "1 < length (rgrid pressure_bump)"
    by (simp_all add: pressure_bump_def)
  have om: "OmegaK astropy_cgs pressure_bump ! 1 = OmegaK astropy_cgs pressure_bump ! 0 / 8"
    using bump_grid by (rule OmegaK_outer) simp
  have cs: "cs astropy_cgs pressure_bump ! 1 = cs astropy_cgs pressure_bump ! 0"
    by (simp add: cs_def pressure_bump_def)
  have sg: "SigmaGas pressure_bump ! 0 = 100" "SigmaGas pressure_bump ! 1 = 800"
    by (simp_all add: pressure_bump_def)
  show ?thesis
    unfolding static_nth(4) [OF sh i(1)] static_nth(4) [OF sh i(2)]
      static_nth(3) [OF sh i(1)] static_nth(3) [OF sh i(2)] om cs sg
    by simp
qed

lemma bump_eta_zero: "eta astropy_cgs pressure_bump ! 0 = 0"
proof -
  note sh = valid_shapes [OF valid_bump]
  have i: "0 < length (rgrid pressure_bump)"
    by (simp add: pressure_bump_def)
  have "length (pg astropy_cgs pressure_bump) = 2"
    using static_lengths(4) [OF sh(1), of astropy_cgs] by (simp add: pressure_bump_def)
  then have pg: "pg astropy_cgs pressure_bump =
      [pg astropy_cgs pressure_bump ! 0, pg astropy_cgs pressure_bump ! 0]"
    using bump_pg_equal
    by (intro nth_equalityI) (auto simp: nth_Cons split: nat.splits)
  have ri: "rInt pressure_bump = [- 0.75 * 10 ^ 13, 3.75 * 10 ^ 13, 8.25 * 10 ^ 13]"
    by (simp add: rInt_def Let_def arr_add_def pressure_bump_def)
  have "pgInt astropy_cgs pressure_bump ! (0 + 1) = pgInt astropy_cgs pressure_bump ! 0"
    unfolding pgInt_def ri
    by (subst (1 2) pg) (simp add: interp_def pressure_bump_def)
  then show ?thesis
    unfolding eta_nth [OF sh(1,2) i] by simp
qed

lemma eta_zero_iff:
  assumes v: "valid_input c p" and i: "ir < length (rgrid p)"
  shows "eta c p ! ir = 0 \<longleftrightarrow> pgInt c p ! (ir + 1) = pgInt c p ! ir"
proof -
  note sh = valid_shapes [OF v]
  have "rhog c p ! ir \<noteq> 0" "OmegaK c p ! ir \<noteq> 0" "rgrid p ! ir \<noteq> 0" "dr p ! ir \<noteq> 0"
    using static_pos(2,3) [OF v i] valid_nth(1) [OF v i] dr_pos [OF v i] by simp_all
  then show ?thesis
    unfolding eta_nth [OF sh(1,2) i] by simp
qed

lemma OmegaK_fourfold:
  assumes "i < length (rgrid p)" "j < length (rgrid p)" "rgrid p ! j = 4 * rgrid p ! i"
  shows "OmegaK c p ! j = OmegaK c p ! i / 8"
proof -
  have "Grav c * Mstar p / (4 * rgrid p ! i) ^ 3 = Grav c * Mstar p / rgrid p ! i ^ 3 / 64"
    by (simp add: power_mult_distrib)
  then have "sqrt (Grav c * Mstar p / (4 * rgrid p ! i) ^ 3) =
      sqrt (Grav c * Mstar p / rgrid p ! i ^ 3) / 8"
    by (simp only: real_sqrt_divide sqrt_64)
  then show ?thesis
    using assms by (simp add: OmegaK_def)
qed

text \<open>On the example disk the pressure at the third radius is an eighth of the pressure at the first.\<close>

lemma example_pg: "pg astropy_cgs example_disk ! 0 = 8 * pg astropy_cgs example_disk ! 2"
proof -
  note sh = valid_shapes(1) [OF valid_example]
  have i: "0 < length (rgrid example_disk)" "2 < length (rgrid example_disk)"
    by (simp_all add: example_disk_def)
  have "rgrid example_disk ! 2 = 4 * rgrid example_disk ! 0"
    by (simp add: example_disk_def)
  then have om: "OmegaK astropy_cgs example_disk ! 2 = OmegaK astropy_cgs example_disk ! 0 / 8"
    using i by (intro OmegaK_fourfold)
  have cs: "cs astropy_cgs example_disk ! 2 = cs astropy_cgs example_disk ! 0"
    by (simp add: cs_def example_disk_def)
  have sg: "SigmaGas example_disk ! 0 = 100" "SigmaGas example_disk ! 2 = 100"
    by (simp_all add: example_disk_def)
  show ?thesis
    unfolding static_nth(4) [OF sh i(1)] static_nth(4) [OF sh i(2)]
      static_nth(3) [OF sh i(1)] static_nth(3) [OF sh i(2)] om cs sg
    by (simp add: mult_ac)
qed

lemma example_eta_nonzero: "eta astropy_cgs example_disk ! 1 \<noteq> 0"
proof -
  note sh = valid_shapes [OF valid_example]
  have i: "1 < length (rgrid example_disk)" "2 < length (rgrid example_disk)"
    by (simp_all add: example_disk_def)
  have "length (pg astropy_cgs example_disk) = 3"
    using static_lengths(4) [OF sh(1), of astropy_cgs] by (simp add: example_disk_def)
  then have pg: "pg astropy_cgs example_disk =
      [8 * pg astropy_cgs example_disk ! 2, pg astropy_cgs example_disk ! 1,
       pg astropy_cgs example_disk ! 2]"
    using example_pg
    by (intro nth_equalityI) (auto simp: nth_Cons numeral_2_eq_2 split: nat.splits)
  have ri: "rInt example_disk = [0.75 * 10 ^ 13, 2.25 * 10 ^ 13, 4.5 * 10 ^ 13, 7.5 * 10 ^ 13]"
    by (simp add: rInt_def Let_def arr_add_def example_disk_def)
  have "pgInt astropy_cgs example_disk =
      map (\<lambda>x. interp x [1.5 * 10 ^ 13, 3 * 10 ^ 13, 6 * 10 ^ 13]
        [8 * pg astropy_cgs example_disk ! 2, pg astropy_cgs example_disk ! 1,
         pg astropy_cgs example_disk ! 2])
        [0.75 * 10 ^ 13, 2.25 * 10 ^ 13, 4.5 * 10 ^ 13, 7.5 * 10 ^ 13]"
    unfolding pgInt_def ri
    by (subst pg) (simp add: example_disk_def)
  then have "pgInt astropy_cgs example_disk ! (1 + 1) - pgInt astropy_cgs example_disk ! 1 =
      - 3.5 * pg astropy_cgs example_disk ! 2"
    by (simp add: interp_def field_simps)
  moreover have "0 < pg astropy_cgs example_disk ! 2"
    using static_pos(1,3) [OF valid_example i(2)]
    by (simp add: static_nth(4) [OF sh(1) i(2)])
  ultimately have "pgInt astropy_cgs example_disk ! (1 + 1) \<noteq> pgInt astropy_cgs example_disk ! 1"
    by simp
  then show ?thesis
    using eta_zero_iff [OF valid_example i(1)] by simp
qed

subsection \<open>The sign of the flux\<close>

lemma run_st_pos:
  assumes v: "valid_input c p" and it: "it < length (tgrid p)" and i: "ir < length (rgrid p)"
  shows "0 < st (run c p) ! it ! ir"
proof -
  note sh = valid_shapes [OF v]
  have "st0 p ! ir \<le> st (run c p) ! it ! ir"
  proof (cases "it = 0")
    case True
    then show ?thesis using sh by (simp add: run_st_row0)
  next
    case False
    then have "1 \<le> it" by simp
    then show ?thesis
      using run_st_nth [OF sh(1,2) _ it i, of c] by simp
  qed
  then show ?thesis
    using static_pos(4) [OF v i] by simp
qed

text \<open>The capped drift velocity of an iteration is not negative, and positive where eta is not zero.\<close>

lemma vv_capped_sign:
  assumes v: "valid_input c p" and it: "it < length (tgrid p)" and i: "ir < length (rgrid p)"
  shows "0 \<le> min
      (2 * \<bar>eta c p ! ir\<bar> * OmegaK c p ! ir * rgrid p ! ir * st (run c p) ! it ! ir /
        (1 + (st (run c p) ! it ! ir) ^ 2))
      (rgrid p ! ir / tgrowth c p ! ir / fff)"
    and "eta c p ! ir \<noteq> 0 \<Longrightarrow> 0 < min
      (2 * \<bar>eta c p ! ir\<bar> * OmegaK c p ! ir * rgrid p ! ir * st (run c p) ! it ! ir /
        (1 + (st (run c p) ! it ! ir) ^ 2))
      (rgrid p ! ir / tgrowth c p ! ir / fff)"
proof -
  let ?x = "st (run c p) ! it ! ir"
  have x: "0 < ?x" using v it i by (rule run_st_pos)
  have d: "0 < 1 + ?x ^ 2" by (simp add: add_pos_nonneg)
  have om: "0 < OmegaK c p ! ir" and r: "0 < rgrid p ! ir" and tg: "0 < tgrowth c p ! ir"
    using static_pos [OF v i] valid_nth [OF v i] by simp_all
  have cap: "0 < rgrid p ! ir / tgrowth c p ! ir / fff"
    using r tg by (simp add: fff_def)
  have "0 \<le> 2 * \<bar>eta c p ! ir\<bar> * OmegaK c p ! ir * rgrid p ! ir * ?x"
    using om r x by simp
  then have "0 \<le> 2 * \<bar>eta c p ! ir\<bar> * OmegaK c p ! ir * rgrid p ! ir * ?x / (1 + ?x ^ 2)"
    using d by simp
  then show "0 \<le> min
      (2 * \<bar>eta c p ! ir\<bar> * OmegaK c p ! ir * rgrid p ! ir * ?x / (1 + ?x ^ 2))
      (rgrid p ! ir / tgrowth c p ! ir / fff)"
    using cap by simp
  assume "eta c p ! ir \<noteq> 0"
  then have "0 < 2 * \<bar>eta c p ! ir\<bar> * OmegaK c p ! ir * rgrid p ! ir * ?x"
    using om r x by simp
  then have "0 < 2 * \<bar>eta c p ! ir\<bar> * OmegaK c p ! ir * rgrid p ! ir * ?x / (1 + ?x ^ 2)"
    using d by simp
  then show "0 < min
      (2 * \<bar>eta c p ! ir\<bar> * OmegaK c p ! ir * rgrid p ! ir * ?x / (1 + ?x ^ 2))
      (rgrid p ! ir / tgrowth c p ! ir / fff)"
    using cap by simp
qed

lemma run_flux0_nonneg:
  assumes v: "valid_input c p" and i: "ir < length (rgrid p)"
  shows "0 \<le> flux (run c p) ! 0 ! ir"
proof -
  note sh = valid_shapes [OF v]
  have "0 < OmegaK c p ! ir" "0 < rgrid p ! ir" "0 < st0 p ! ir" "0 < SigmaDust p ! ir"
    using static_pos [OF v i] valid_nth [OF v i] by simp_all
  moreover have "0 < 1 + (st0 p ! ir) ^ 2" by (simp add: add_pos_nonneg)
  ultimately show ?thesis
    unfolding run_flux0_nth [OF sh i] by simp
qed

lemma run_flux_sign:
  assumes v: "valid_input c p" and it: "1 \<le> it" "it < length (tgrid p)"
    and i: "ir < length (rgrid p)"
  shows "0 \<le> massout (run c p) ! it ! ir \<Longrightarrow> 0 \<le> flux (run c p) ! it ! ir"
    and "eta c p ! ir \<noteq> 0 \<Longrightarrow> massout (run c p) ! it ! ir < 0 \<Longrightarrow>
      flux (run c p) ! it ! ir < 0"
proof -
  note sh = valid_shapes [OF v]
  let ?w = "min
      (2 * \<bar>eta c p ! ir\<bar> * OmegaK c p ! ir * rgrid p ! ir * st (run c p) ! it ! ir /
        (1 + (st (run c p) ! it ! ir) ^ 2))
      (rgrid p ! ir / tgrowth c p ! ir / fff)"
  let ?m = "massout (run c p) ! it ! ir" and ?mz = "massout (run c p) ! 0 ! ir"
  have fl: "flux (run c p) ! it ! ir = 2 * pi * rgrid p ! ir * ?w * SigmaDust p ! ir * (?m / ?mz)"
    using sh(1,2) it i by (rule run_flux_nth)
  have m0: "0 < ?mz" using v i by (rule massout0_pos)
  have r: "0 < rgrid p ! ir" and sd: "0 < SigmaDust p ! ir"
    using valid_nth [OF v i] by simp_all
  have w0: "0 \<le> ?w" using v it(2) i by (rule vv_capped_sign)
  {
    assume "0 \<le> ?m"
    then have "0 \<le> ?m / ?mz" using m0 by simp
    moreover have "0 \<le> 2 * pi * rgrid p ! ir * ?w * SigmaDust p ! ir"
      using r sd w0 by simp
    ultimately show "0 \<le> flux (run c p) ! it ! ir"
      unfolding fl by (rule mult_nonneg_nonneg [rotated])
  }
  {
    assume e: "eta c p ! ir \<noteq> 0" and neg: "?m < 0"
    have "0 < ?w" using v it(2) i e by (rule vv_capped_sign)
    then have "0 < 2 * pi * rgrid p ! ir * ?w * SigmaDust p ! ir"
      using r sd by simp
    moreover have "?m / ?mz < 0" using neg m0 by (simp add: divide_neg_pos)
    ultimately show "flux (run c p) ! it ! ir < 0"
      unfolding fl by (rule mult_pos_neg)
  }
qed

subsection \<open>A disk with coarse time steps\<close>

lemma valid_coarse: "valid_input astropy_cgs coarse_times"
  by (simp add: valid_input_def astropy_cgs_def coarse_times_def shapes_agree_def)

lemma coarse_grid: "rgrid coarse_times = [1.5 * 10 ^ 13, 4 * (1.5 * 10 ^ 13)]"
  by (simp add: coarse_times_def)

lemma coarse_rInt: "rInt coarse_times = [- 0.75 * 10 ^ 13, 3.75 * 10 ^ 13, 8.25 * 10 ^ 13]"
  by (simp add: rInt_def Let_def arr_add_def coarse_times_def)

lemma coarse_dr: "dr coarse_times ! 1 = 4.5 * 10 ^ 13"
  by (simp add: dr_def coarse_rInt arr_sub_def)

text \<open>The pressure at the outer radius is an eighth of the pressure at the inner one.\<close>

lemma coarse_pg: "pg astropy_cgs coarse_times ! 0 = 8 * pg astropy_cgs coarse_times ! 1"
proof -
  note sh = valid_shapes(1) [OF valid_coarse]
  have i: "0 < length (rgrid coarse_times)" "1 < length (rgrid coarse_times)"
    by (simp_all add: coarse_times_def)
  have om: "OmegaK astropy_cgs coarse_times ! 1 = OmegaK astropy_cgs coarse_times ! 0 / 8"
    using coarse_grid by (rule OmegaK_outer) simp
  have cs: "cs astropy_cgs coarse_times ! 1 = cs astropy_cgs coarse_times ! 0"
    by (simp add: cs_def coarse_times_def)
  have sg: "SigmaGas coarse_times ! 0 = 100" "SigmaGas coarse_times ! 1 = 100"
    by (simp_all add: coarse_times_def)
  show ?thesis
    unfolding static_nth(4) [OF sh i(1)] static_nth(4) [OF sh i(2)]
      static_nth(3) [OF sh i(1)] static_nth(3) [OF sh i(2)] om cs sg
    by (simp add: mult_ac)
qed

lemma coarse_pgInt:
  "pgInt astropy_cgs coarse_times ! 2 - pgInt astropy_cgs coarse_times ! 1 =
    - 3.5 * pg astropy_cgs coarse_times ! 1"
proof -
  note sh = valid_shapes [OF valid_coarse]
  have "length (pg astropy_cgs coarse_times) = 2"
    using static_lengths(4) [OF sh(1), of astropy_cgs] by (simp add: coarse_times_def)
  then have pg: "pg astropy_cgs coarse_times =
      [8 * pg astropy_cgs coarse_times ! 1, pg astropy_cgs coarse_times ! 1]"
    using coarse_pg
    by (intro nth_equalityI) (auto simp: nth_Cons split: nat.splits)
  have "pgInt astropy_cgs coarse_times =
      map (\<lambda>x. interp x [1.5 * 10 ^ 13, 6 * 10 ^ 13]
        [8 * pg astropy_cgs coarse_times ! 1, pg astropy_cgs coarse_times ! 1])
        [- 0.75 * 10 ^ 13, 3.75 * 10 ^ 13, 8.25 * 10 ^ 13]"
    unfolding pgInt_def coarse_rInt
    by (subst pg) (simp add: coarse_times_def)
  then show ?thesis
    by (simp add: interp_def)
qed

lemma coarse_eta:
  "eta astropy_cgs coarse_times ! 1 =
    - (3.5 * (cs astropy_cgs coarse_times ! 1) ^ 2) /
      (5.4 * 10 ^ 27 * (OmegaK astropy_cgs coarse_times ! 1) ^ 2)"
proof -
  note sh = valid_shapes [OF valid_coarse]
  have i: "1 < length (rgrid coarse_times)"
    by (simp add: coarse_times_def)
  have r: "rgrid coarse_times ! 1 = 6 * 10 ^ 13"
    by (simp add: coarse_times_def)
  have pos: "0 < rhog astropy_cgs coarse_times ! 1" "0 < OmegaK astropy_cgs coarse_times ! 1"
    using static_pos [OF valid_coarse i] by simp_all
  have e: "eta astropy_cgs coarse_times ! 1 =
      (pgInt astropy_cgs coarse_times ! (1 + 1) - pgInt astropy_cgs coarse_times ! 1) /
      dr coarse_times ! 1 /
      (2 * rhog astropy_cgs coarse_times ! 1 * (OmegaK astropy_cgs coarse_times ! 1) ^ 2 *
        rgrid coarse_times ! 1)"
    using sh(1,2) i by (rule eta_nth)
  show ?thesis
    unfolding e one_add_one coarse_pgInt coarse_dr r static_nth(4) [OF sh(1) i]
    using pos by (simp add: field_simps)
qed

lemma coarse_cs2: "7 * 10 ^ 9 \<le> (cs astropy_cgs coarse_times ! 1) ^ 2"
  by (simp add: cs_def coarse_times_def astropy_cgs_def)

lemma coarse_OmegaK: "OmegaK astropy_cgs coarse_times ! 1 \<le> 1 / 10 ^ 7"
proof -
  have "OmegaK astropy_cgs coarse_times ! 1 =
      sqrt (Grav astropy_cgs * Mstar coarse_times / (6 * 10 ^ 13) ^ 3)"
    by (simp add: OmegaK_def coarse_times_def)
  also have "\<dots> \<le> 1 / 10 ^ 7"
    by (rule real_le_lsqrt) (simp_all add: astropy_cgs_def coarse_times_def power2_eq_square)
  finally show ?thesis .
qed

lemma coarse_eta_nonzero: "eta astropy_cgs coarse_times ! 1 \<noteq> 0"
proof -
  have i: "1 < length (rgrid coarse_times)"
    by (simp add: coarse_times_def)
  have "0 < cs astropy_cgs coarse_times ! 1" "0 < OmegaK astropy_cgs coarse_times ! 1"
    using static_pos [OF valid_coarse i] by simp_all
  then show ?thesis
    unfolding coarse_eta by simp
qed

text \<open>The headwind speed \<open>|eta| Omega r\<close> at the outer radius is above 2000 cm/s.\<close>

lemma coarse_headwind:
  "2000 \<le> \<bar>eta astropy_cgs coarse_times ! 1\<bar> * OmegaK astropy_cgs coarse_times ! 1 *
    rgrid coarse_times ! 1"
proof -
  let ?k = "cs astropy_cgs coarse_times ! 1" and ?om = "OmegaK astropy_cgs coarse_times ! 1"
  have i: "1 < length (rgrid coarse_times)"
    by (simp add: coarse_times_def)
  have om: "0 < ?om" using static_pos [OF valid_coarse i] by simp
  have r: "rgrid coarse_times ! 1 = 6 * 10 ^ 13"
    by (simp add: coarse_times_def)
  have "\<bar>eta astropy_cgs coarse_times ! 1\<bar> = 3.5 * ?k ^ 2 / (5.4 * 10 ^ 27 * ?om ^ 2)"
    unfolding coarse_eta using om by (simp add: abs_mult)
  then have eq: "\<bar>eta astropy_cgs coarse_times ! 1\<bar> * ?om * rgrid coarse_times ! 1 =
      3.5 * ?k ^ 2 / (9 * 10 ^ 13 * ?om)"
    unfolding r using om by (simp add: field_simps power2_eq_square)
  have "2000 * (9 * 10 ^ 13 * ?om) \<le> 2000 * (9 * 10 ^ 13 * (1 / 10 ^ 7))"
    using coarse_OmegaK by simp
  also have "\<dots> \<le> 3.5 * (7 * 10 ^ 9)" by simp
  also have "\<dots> \<le> 3.5 * ?k ^ 2" using coarse_cs2 by simp
  finally have "2000 \<le> 3.5 * ?k ^ 2 / (9 * 10 ^ 13 * ?om)"
    using om by (simp add: pos_le_divide_eq)
  then show ?thesis unfolding eq .
qed

lemma coarse_st0: "st0 coarse_times ! 1 / (1 + (st0 coarse_times ! 1) ^ 2) \<ge> 5 / 10 ^ 7"
proof -
  let ?s = "st0 coarse_times ! 1"
  have s: "?s = 8 / 10 ^ 7 * pi"
    by (simp add: st0_def a0_def coarse_times_def)
  have lo: "16 / 10 ^ 7 \<le> ?s" using pi_ge_two unfolding s by simp
  have hi: "?s \<le> 1" using pi_less_4 unfolding s by simp
  have "0 \<le> ?s" using lo by simp
  then have "?s ^ 2 \<le> 1" using hi by (simp add: power_le_one)
  then have "5 / 10 ^ 7 * (1 + ?s ^ 2) \<le> 5 / 10 ^ 7 * 2" by simp
  also have "\<dots> \<le> ?s" using lo by simp
  finally show ?thesis by (simp add: pos_le_divide_eq add_pos_nonneg)
qed

lemma coarse_massout1_neg: "massout (run astropy_cgs coarse_times) ! 1 ! 1 < 0"
proof -
  note sh = valid_shapes [OF valid_coarse]
  let ?b = "\<bar>eta astropy_cgs coarse_times ! 1\<bar> * OmegaK astropy_cgs coarse_times ! 1 *
    rgrid coarse_times ! 1"
  let ?w = "st0 coarse_times ! 1 / (1 + (st0 coarse_times ! 1) ^ 2)"
  have i: "1 < length (rgrid coarse_times)" and t: "1 < length (tgrid coarse_times)"
    by (simp_all add: coarse_times_def)
  have m0: "massout (run astropy_cgs coarse_times) ! 0 ! 1 = 2 * pi * (6 * 10 ^ 13) * (4.5 * 10 ^ 13)"
    using sh i coarse_dr
    by (simp add: run_massout0_nth massout0_sum) (simp add: coarse_times_def)
  have f0: "flux (run astropy_cgs coarse_times) ! 0 ! 1 = 2 * pi * (6 * 10 ^ 13) * (2 * (?b * ?w))"
    unfolding run_flux0_nth [OF sh i] by (simp add: coarse_times_def)
  have m1: "massout (run astropy_cgs coarse_times) ! 1 ! 1 =
      massout (run astropy_cgs coarse_times) ! 0 ! 1 -
      flux (run astropy_cgs coarse_times) ! 0 ! 1 * 10 ^ 17"
    using run_massout_nth [OF sh(1,2) _ t i, of astropy_cgs]
    by (simp add: coarse_times_def)
  have "2000 * (5 / 10 ^ 7) \<le> ?b * ?w"
    using coarse_headwind coarse_st0 by (intro mult_mono) simp_all
  then have "4.5 * 10 ^ 13 < 2 * (?b * ?w) * 10 ^ 17" by simp
  then have "2 * pi * (6 * 10 ^ 13) * (4.5 * 10 ^ 13) <
      2 * pi * (6 * 10 ^ 13) * (2 * (?b * ?w) * 10 ^ 17)"
    by (intro mult_strict_left_mono) simp_all
  then show ?thesis
    unfolding m1 m0 f0 by (simp add: mult.assoc)
qed

lemma coarse_flux1_neg: "flux (run astropy_cgs coarse_times) ! 1 ! 1 < 0"
proof -
  have h: "(1::nat) \<le> 1" "1 < length (tgrid coarse_times)" "1 < length (rgrid coarse_times)"
    by (simp_all add: coarse_times_def)
  show ?thesis
    using run_flux_sign(2) [OF valid_coarse h coarse_eta_nonzero coarse_massout1_neg] .
qed

section \<open>Cell interfaces\<close>

text \<open>
  C8. For a radial grid of at least two radii the interface array has one entry more than
  the grid; its first entry is \<open>1.5 r[0] - 0.5 r[1]\<close>, its last entry is
  \<open>1.5 r[N-1] - 0.5 r[N-2]\<close>, and every interior entry is the midpoint of the two
  adjacent radii. For the grid \<open>[1, 2, 4]\<close> the interfaces are \<open>[0.5, 1.5, 3, 5]\<close>.
\<close>

theorem rInt_interfaces:
  assumes "2 \<le> length (rgrid p)"
  shows "length (rInt p) = length (rgrid p) + 1 \<and>
    rInt p ! 0 = 1.5 * rgrid p ! 0 - 0.5 * rgrid p ! 1 \<and>
    rInt p ! length (rgrid p) =
      1.5 * rgrid p ! (length (rgrid p) - 1) - 0.5 * rgrid p ! (length (rgrid p) - 2) \<and>
    (\<forall>i. 1 \<le> i \<and> i < length (rgrid p) \<longrightarrow>
      rInt p ! i = 0.5 * (rgrid p ! (i - 1) + rgrid p ! i)) \<and>
    (rgrid p = [1, 2, 4] \<longrightarrow> rInt p = [0.5, 1.5, 3, 5])"
proof -
  have "rInt p = [0.5, 1.5, 3, 5]" if "rgrid p = [1, 2, 4]"
    using that by (simp add: rInt_def Let_def arr_add_def)
  then show ?thesis
    using assms length_rInt rInt_first rInt_last rInt_mid by blast
qed

theorem rInt_interfaces_witness:
  "2 \<le> length (rgrid grid_124) \<and> length (rInt grid_124) = 4 \<and>
   rInt grid_124 = [0.5, 1.5, 3, 5]"
  using rInt_interfaces [of grid_124] by (simp add: grid_124_def)

section \<open>The initial condition\<close>

text \<open>
  C7. On valid input the function returns, row 0 of the Stokes number field is the monomer
  Stokes number \<open>st0\<close> at every radius (\<open>0.5 pi a0 rhop / SigmaGas\<close> with
  \<open>a0 = 0.0001\<close>), and row 0 of the mass budget is the reverse cumulative sum:
  \<open>massout[0, ir]\<close> is the sum over \<open>j \<ge> ir\<close> of \<open>2 pi r[j] dr[j] SigmaDust[j]\<close>,
  with \<open>dr[j]\<close> the difference of the interfaces \<open>j + 1\<close> and \<open>j\<close>.
\<close>

theorem initial_condition:
  assumes "valid_input c p" "ir < length (rgrid p)"
  shows "\<exists>St Fl. pebble_predictor c p = Inr (St, Fl) \<and>
    St ! 0 = st0 p \<and>
    St ! 0 ! ir = 0.5 * pi * 0.0001 * rhop p / SigmaGas p ! ir \<and>
    massout (run c p) ! 0 ! ir =
      (\<Sum>j = ir..<length (rgrid p).
        2 * pi * rgrid p ! j * (rInt p ! (j + 1) - rInt p ! j) * SigmaDust p ! j)"
proof -
  note sh = valid_shapes [OF assms(1)]
  have ret: "pebble_predictor c p = Inr (st (run c p), flux (run c p))"
    using sh by (rule pebble_predictor_returns)
  have s0: "st (run c p) ! 0 = st0 p"
    using sh(3) by (rule run_st_row0)
  have e0: "st0 p ! ir = 0.5 * pi * 0.0001 * rhop p / SigmaGas p ! ir"
    using static_nth(6) [OF sh(1) assms(2)] by (simp add: a0_def)
  have "massout (run c p) ! 0 ! ir =
      (\<Sum>j = ir..<length (rgrid p). 2 * pi * rgrid p ! j * dr p ! j * SigmaDust p ! j)"
    using sh assms(2) by (simp add: run_massout0_nth massout0_sum)
  also have "\<dots> = (\<Sum>j = ir..<length (rgrid p).
        2 * pi * rgrid p ! j * (rInt p ! (j + 1) - rInt p ! j) * SigmaDust p ! j)"
    using sh(2) by (intro sum.cong) (simp_all add: dr_nth)
  finally show ?thesis
    using ret s0 e0 by simp
qed

theorem initial_condition_witness:
  "valid_input astropy_cgs example_disk \<and>
   (\<exists>St Fl. pebble_predictor astropy_cgs example_disk = Inr (St, Fl) \<and>
    St ! 0 = st0 example_disk \<and>
    massout (run astropy_cgs example_disk) ! 0 ! 1 =
      (\<Sum>j = 1..<length (rgrid example_disk).
        2 * pi * rgrid example_disk ! j * (rInt example_disk ! (j + 1) - rInt example_disk ! j) *
        SigmaDust example_disk ! j))"
proof -
  have h: "1 < length (rgrid example_disk)"
    by (simp add: example_disk_def)
  show ?thesis
    using valid_example initial_condition [OF valid_example h] by blast
qed

section \<open>The Stokes number\<close>

text \<open>
  C1. On valid input, for every time index \<open>it\<close> from 1 to \<open>M - 1\<close> and every radius index
  \<open>ir\<close> where \<open>eta\<close> is not zero (so that no divisor of the chain is zero), the stored
  Stokes number is the clamp chain in this order: the minimum of the
  fragmentation-turbulence limit, the fragmentation-drift limit and the growth value
  \<open>st0 exp (t[it] / tgrowth)\<close>, with \<open>t[it]\<close> the time of the grid itself; then the minimum
  with the drift-supply limit \<open>Z / |eta| / 30\<close>, where \<open>Z = Z0 massout[it] / massout[0]\<close>;
  then the maximum with the monomer Stokes number \<open>st0\<close>.
\<close>

theorem stokes_clamp_chain:
  assumes "valid_input c p" "eta c p ! ir \<noteq> 0"
    and "1 \<le> it" "it < length (tgrid p)" "ir < length (rgrid p)"
  shows "\<exists>St Fl. pebble_predictor c p = Inr (St, Fl) \<and>
    St ! it ! ir =
      max
        (min
          (min (min (stfrag c p ! ir) (stdf c p ! ir))
            (st0 p ! ir * exp (tgrid p ! it / tgrowth c p ! ir)))
          (Z0 p ! ir * (massout (run c p) ! it ! ir / massout (run c p) ! 0 ! ir) /
            \<bar>eta c p ! ir\<bar> / 30))
        (st0 p ! ir)"
proof -
  note sh = valid_shapes [OF assms(1)]
  have "pebble_predictor c p = Inr (st (run c p), flux (run c p))"
    using sh by (rule pebble_predictor_returns)
  moreover have "st (run c p) ! it ! ir =
      max
        (min
          (min (min (stfrag c p ! ir) (stdf c p ! ir))
            (st0 p ! ir * exp (tgrid p ! it / tgrowth c p ! ir)))
          (Z0 p ! ir * (massout (run c p) ! it ! ir / massout (run c p) ! 0 ! ir) /
            \<bar>eta c p ! ir\<bar> / 30))
        (st0 p ! ir)"
    using run_st_nth [OF sh(1,2) assms(3,4,5), of c] by (simp add: fff_def)
  ultimately show ?thesis by blast
qed

theorem stokes_clamp_chain_witness:
  "valid_input astropy_cgs example_disk \<and> eta astropy_cgs example_disk ! 1 \<noteq> 0 \<and>
   (\<exists>St Fl. pebble_predictor astropy_cgs example_disk = Inr (St, Fl) \<and>
    St ! 2 ! 1 =
      max
        (min
          (min (min (stfrag astropy_cgs example_disk ! 1) (stdf astropy_cgs example_disk ! 1))
            (st0 example_disk ! 1 *
              exp (tgrid example_disk ! 2 / tgrowth astropy_cgs example_disk ! 1)))
          (Z0 example_disk ! 1 *
            (massout (run astropy_cgs example_disk) ! 2 ! 1 /
              massout (run astropy_cgs example_disk) ! 0 ! 1) /
            \<bar>eta astropy_cgs example_disk ! 1\<bar> / 30))
        (st0 example_disk ! 1))"
proof -
  have h: "(1::nat) \<le> 2" "2 < length (tgrid example_disk)" "1 < length (rgrid example_disk)"
    by (simp_all add: example_disk_def)
  show ?thesis
    using valid_example example_eta_nonzero
      stokes_clamp_chain [OF valid_example example_eta_nonzero h]
    by blast
qed

text \<open>
  C2. On valid input, at every time index (0 included) and every radius index the returned
  Stokes number is at least the monomer Stokes number \<open>0.5 pi a0 rhop / SigmaGas\<close> of that
  radius.
\<close>

theorem stokes_floor:
  assumes "valid_input c p" "it < length (tgrid p)" "ir < length (rgrid p)"
  shows "\<exists>St Fl. pebble_predictor c p = Inr (St, Fl) \<and>
    st0 p ! ir \<le> St ! it ! ir \<and>
    st0 p ! ir = 0.5 * pi * 0.0001 * rhop p / SigmaGas p ! ir"
proof -
  note sh = valid_shapes [OF assms(1)]
  have ret: "pebble_predictor c p = Inr (st (run c p), flux (run c p))"
    using sh by (rule pebble_predictor_returns)
  have "st0 p ! ir \<le> st (run c p) ! it ! ir"
  proof (cases "it = 0")
    case True
    then show ?thesis using sh by (simp add: run_st_row0)
  next
    case False
    then have "1 \<le> it" by simp
    then show ?thesis
      using run_st_nth [OF sh(1,2) _ assms(2,3), of c] by simp
  qed
  moreover have "st0 p ! ir = 0.5 * pi * 0.0001 * rhop p / SigmaGas p ! ir"
    using static_nth(6) [OF sh(1) assms(3)] by (simp add: a0_def)
  ultimately show ?thesis using ret by blast
qed

theorem stokes_floor_witness:
  "valid_input astropy_cgs example_disk \<and>
   (\<exists>St Fl. pebble_predictor astropy_cgs example_disk = Inr (St, Fl) \<and>
    st0 example_disk ! 2 \<le> St ! 1 ! 2)"
proof -
  have h: "1 < length (tgrid example_disk)" "2 < length (rgrid example_disk)"
    by (simp_all add: example_disk_def)
  show ?thesis
    using valid_example stokes_floor [OF valid_example h] by blast
qed

text \<open>
  C3, as claimed: on valid input, for \<open>it \<ge> 1\<close>, the returned Stokes number is at most
  the minimum of the fragmentation-turbulence limit, the fragmentation-drift limit and the
  growth value. This fails: with a fragmentation velocity of 1 cm/s the
  fragmentation-turbulence limit lies below the monomer Stokes number, and the floor of
  line 79 lifts the stored value above it.
\<close>

theorem stokes_ceiling_counterexample:
  "valid_input astropy_cgs fragile_disk \<and>
   (\<exists>St Fl. pebble_predictor astropy_cgs fragile_disk = Inr (St, Fl) \<and>
     \<not> St ! 1 ! 0 \<le>
       min (min (stfrag astropy_cgs fragile_disk ! 0) (stdf astropy_cgs fragile_disk ! 0))
         (st0 fragile_disk ! 0 *
           exp (tgrid fragile_disk ! 1 / tgrowth astropy_cgs fragile_disk ! 0)))"
proof -
  note sh = valid_shapes [OF valid_fragile]
  have h: "(1::nat) \<le> 1" "1 < length (tgrid fragile_disk)" "0 < length (rgrid fragile_disk)"
    by (simp_all add: fragile_disk_def example_disk_def)
  have "st0 fragile_disk ! 0 \<le> st (run astropy_cgs fragile_disk) ! 1 ! 0"
    using run_st_nth [OF sh(1,2) h, of astropy_cgs] by simp
  then have "\<not> st (run astropy_cgs fragile_disk) ! 1 ! 0 \<le>
       min (min (stfrag astropy_cgs fragile_disk ! 0) (stdf astropy_cgs fragile_disk ! 0))
         (st0 fragile_disk ! 0 *
           exp (tgrid fragile_disk ! 1 / tgrowth astropy_cgs fragile_disk ! 0))"
    using fragile_stfrag_lt_st0 by simp
  then show ?thesis
    using valid_fragile pebble_predictor_returns [OF sh, of astropy_cgs] by blast
qed

text \<open>
  C3, amended: on valid input, for \<open>it \<ge> 1\<close> and at every radius where \<open>eta\<close> is not zero,
  the returned Stokes number is at most the larger of the monomer Stokes number and that
  three-way minimum; it is at most the three-way minimum whenever the monomer Stokes
  number is.
\<close>

theorem stokes_ceiling:
  assumes "valid_input c p" "eta c p ! ir \<noteq> 0"
    and "1 \<le> it" "it < length (tgrid p)" "ir < length (rgrid p)"
  shows "\<exists>St Fl. pebble_predictor c p = Inr (St, Fl) \<and>
    St ! it ! ir \<le>
      max (st0 p ! ir)
        (min (min (stfrag c p ! ir) (stdf c p ! ir))
          (st0 p ! ir * exp (tgrid p ! it / tgrowth c p ! ir))) \<and>
    (st0 p ! ir \<le>
        min (min (stfrag c p ! ir) (stdf c p ! ir))
          (st0 p ! ir * exp (tgrid p ! it / tgrowth c p ! ir)) \<longrightarrow>
      St ! it ! ir \<le>
        min (min (stfrag c p ! ir) (stdf c p ! ir))
          (st0 p ! ir * exp (tgrid p ! it / tgrowth c p ! ir)))"
proof -
  note sh = valid_shapes [OF assms(1)]
  have mm: "max (min a b) s \<le> max s a" for a b s :: real
    by (simp add: max_def min_def)
  have "st (run c p) ! it ! ir \<le>
      max (st0 p ! ir)
        (min (min (stfrag c p ! ir) (stdf c p ! ir))
          (st0 p ! ir * exp (tgrid p ! it / tgrowth c p ! ir)))"
    unfolding run_st_nth [OF sh(1,2) assms(3,4,5), of c] by (rule mm)
  then show ?thesis
    using pebble_predictor_returns [OF sh, of c] by auto
qed

theorem stokes_ceiling_witness:
  "valid_input astropy_cgs example_disk \<and> eta astropy_cgs example_disk ! 1 \<noteq> 0 \<and>
   (\<exists>St Fl. pebble_predictor astropy_cgs example_disk = Inr (St, Fl) \<and>
    St ! 1 ! 1 \<le>
      max (st0 example_disk ! 1)
        (min (min (stfrag astropy_cgs example_disk ! 1) (stdf astropy_cgs example_disk ! 1))
          (st0 example_disk ! 1 *
            exp (tgrid example_disk ! 1 / tgrowth astropy_cgs example_disk ! 1))))"
proof -
  have h: "(1::nat) \<le> 1" "1 < length (tgrid example_disk)" "1 < length (rgrid example_disk)"
    by (simp_all add: example_disk_def)
  show ?thesis
    using valid_example example_eta_nonzero
      stokes_ceiling [OF valid_example example_eta_nonzero h]
    by blast
qed

section \<open>The drift velocity\<close>

text \<open>
  C10. On valid input, after the initial condition (\<open>it = 0\<close>) and after every iteration
  \<open>it\<close> of the loop, at every radius: the drift law
  \<open>2 |eta| Omega r St / (1 + St^2)\<close> at the Stokes number of row \<open>it\<close> is at most
  \<open>|eta| Omega r\<close>; the local \<open>vv\<close> is that value (\<open>it = 0\<close>) or its minimum with
  \<open>r / tgrowth / 30\<close> (\<open>it \<ge> 1\<close>); and so \<open>vv\<close> is at most \<open>|eta| Omega r\<close> too.
\<close>

theorem drift_velocity_bound:
  assumes "valid_input c p" "it < length (tgrid p)" "ir < length (rgrid p)"
  shows "2 * \<bar>eta c p ! ir\<bar> * OmegaK c p ! ir * rgrid p ! ir *
        st (time_loop c p (initial c p) (Suc it)) ! it ! ir /
        (1 + (st (time_loop c p (initial c p) (Suc it)) ! it ! ir) ^ 2)
      \<le> \<bar>eta c p ! ir\<bar> * OmegaK c p ! ir * rgrid p ! ir \<and>
    vv (time_loop c p (initial c p) (Suc it)) ! ir =
      (if it = 0
       then 2 * \<bar>eta c p ! ir\<bar> * OmegaK c p ! ir * rgrid p ! ir *
         st (time_loop c p (initial c p) (Suc it)) ! it ! ir /
         (1 + (st (time_loop c p (initial c p) (Suc it)) ! it ! ir) ^ 2)
       else min
         (2 * \<bar>eta c p ! ir\<bar> * OmegaK c p ! ir * rgrid p ! ir *
           st (time_loop c p (initial c p) (Suc it)) ! it ! ir /
           (1 + (st (time_loop c p (initial c p) (Suc it)) ! it ! ir) ^ 2))
         (rgrid p ! ir / tgrowth c p ! ir / 30)) \<and>
    vv (time_loop c p (initial c p) (Suc it)) ! ir
      \<le> \<bar>eta c p ! ir\<bar> * OmegaK c p ! ir * rgrid p ! ir"
proof -
  note sh = valid_shapes [OF assms(1)]
  let ?s = "time_loop c p (initial c p) (Suc it)"
  let ?x = "st ?s ! it ! ir"
  let ?b = "\<bar>eta c p ! ir\<bar> * OmegaK c p ! ir * rgrid p ! ir"
  have b0: "0 \<le> ?b"
    using static_pos(2) [OF assms(1,3)] valid_nth(1) [OF assms(1,3)] by simp
  have law: "2 * \<bar>eta c p ! ir\<bar> * OmegaK c p ! ir * rgrid p ! ir * ?x / (1 + ?x ^ 2) \<le> ?b"
    using drift_law_le [OF b0, of ?x] by (simp add: mult.assoc)
  have ws: "well_shaped (length (tgrid p)) (length (rgrid p)) ?s"
    using assms(2) by (intro time_loop_well_shaped initial_well_shaped sh) simp
  have "st ?s ! it \<in> set (st ?s)"
    using ws assms(2) by (simp add: well_shaped_def)
  then have lx: "length (st ?s ! it) = length (rgrid p)"
    using ws by (simp add: well_shaped_def)
  have dv: "drift_velocity c p (st ?s ! it) ! ir =
      2 * \<bar>eta c p ! ir\<bar> * OmegaK c p ! ir * rgrid p ! ir * ?x / (1 + ?x ^ 2)"
    using sh(1,2) assms(3) lx by (rule drift_velocity_nth)
  have ldv: "length (drift_velocity c p (st ?s ! it)) = length (rgrid p)"
    using sh(1,2) lx by (rule length_drift_velocity)
  have vv: "vv ?s ! ir =
      (if it = 0 then 2 * \<bar>eta c p ! ir\<bar> * OmegaK c p ! ir * rgrid p ! ir * ?x / (1 + ?x ^ 2)
       else min (2 * \<bar>eta c p ! ir\<bar> * OmegaK c p ! ir * rgrid p ! ir * ?x / (1 + ?x ^ 2))
         (rgrid p ! ir / tgrowth c p ! ir / 30))"
  proof (cases "it = 0")
    case True
    have "vv ?s = drift_velocity c p (st ?s ! it)"
      using sh(3) by (simp add: True time_loop_1 initial_vv initial_st_row0)
    then show ?thesis using dv True by simp
  next
    case False
    then have "?s = step c p (time_loop c p (initial c p) it) it"
      by (simp add: time_loop_Suc)
    then have "vv ?s = arr_minimum (drift_velocity c p (st ?s ! it))
        (map (\<lambda>x. x / fff) (arr_div (rgrid p) (tgrowth c p)))"
      using step_vv [of c p "time_loop c p (initial c p) it" it] by simp
    then show ?thesis
      using False dv ldv assms(3) sh(1)
      by (simp add: static_lengths fff_def)
  qed
  have "vv ?s ! ir \<le> ?b"
    using law vv by (simp split: if_splits)
  then show ?thesis using law vv by blast
qed

theorem drift_velocity_bound_witness:
  "valid_input astropy_cgs example_disk \<and>
   vv (time_loop astropy_cgs example_disk (initial astropy_cgs example_disk) (Suc 2)) ! 1
     \<le> \<bar>eta astropy_cgs example_disk ! 1\<bar> * OmegaK astropy_cgs example_disk ! 1 *
       rgrid example_disk ! 1"
proof -
  have h: "2 < length (tgrid example_disk)" "1 < length (rgrid example_disk)"
    by (simp_all add: example_disk_def)
  show ?thesis
    using valid_example drift_velocity_bound [OF valid_example h] by blast
qed

section \<open>The mass budget and the flux\<close>

text \<open>
  C4. The claim: on valid input the mass budget \<open>massout[0, ir], massout[1, ir], ...\<close> of
  the recurrence \<open>massout[it] = massout[it-1] - flux[it-1] (t[it] - t[it-1])\<close> never
  increases with the time index. The code means this (line 60: the solids mass outside of
  the cell; line 73: decrease the mass budget) and misses it: nothing stops the update at
  zero. On the valid disk \<open>coarse_times\<close>, with time steps of \<open>10^17\<close> s, the first step
  takes more than the whole budget of the outer cell, the budget of row 1 is negative
  there, and the budget of row 2 is larger than that of row 1.
\<close>

theorem massout_rises_coarse_times:
  "valid_input astropy_cgs coarse_times \<and>
   massout (run astropy_cgs coarse_times) ! 1 ! 1 <
     massout (run astropy_cgs coarse_times) ! 2 ! 1"
proof -
  note sh = valid_shapes [OF valid_coarse]
  have h: "(1::nat) \<le> 2" "2 < length (tgrid coarse_times)" "1 < length (rgrid coarse_times)"
    by (simp_all add: coarse_times_def)
  have "massout (run astropy_cgs coarse_times) ! 2 ! 1 =
      massout (run astropy_cgs coarse_times) ! 1 ! 1 -
      flux (run astropy_cgs coarse_times) ! 1 ! 1 * 10 ^ 17"
    using run_massout_nth [OF sh(1,2) h, of astropy_cgs]
    by (simp add: coarse_times_def)
  moreover have "0 < - flux (run astropy_cgs coarse_times) ! 1 ! 1 * 10 ^ 17"
    using coarse_flux1_neg by simp
  ultimately show ?thesis
    using valid_coarse by simp
qed

text \<open>
  C5. The claim: on valid input every entry of the returned flux field is non-negative.
  The code means this (the drift velocity is built from \<open>abs(eta)\<close>; line 82 scales it by
  the remaining mass estimate) and misses it on the same disk: the budget of row 1 at the
  outer radius is negative, and the returned flux of row 1 there is negative.
\<close>

theorem flux_negative_coarse_times:
  "valid_input astropy_cgs coarse_times \<and>
   (\<exists>St Fl. pebble_predictor astropy_cgs coarse_times = Inr (St, Fl) \<and> Fl ! 1 ! 1 < 0)"
  using valid_coarse coarse_flux1_neg
    pebble_predictor_returns [OF valid_shapes [OF valid_coarse], of astropy_cgs]
  by simp

section \<open>Divisors\<close>

text \<open>
  C9, as claimed: on every input that satisfies the preconditions every divisor is
  nonzero, \<open>|eta|\<close> in particular. This fails: where the gas surface density rises
  outwards as fast as the orbital frequency falls, the pressure is the same at two
  neighbouring radii, the interpolated interface pressures of the cell are equal and
  \<open>eta\<close> is zero there, and with it the divisor \<open>2 |eta| Omega r\<close> of line 54.
\<close>

theorem eta_nonzero_counterexample:
  "valid_input astropy_cgs pressure_bump \<and>
   eta astropy_cgs pressure_bump ! 0 = 0 \<and>
   2 * \<bar>eta astropy_cgs pressure_bump ! 0\<bar> * OmegaK astropy_cgs pressure_bump ! 0 *
     rgrid pressure_bump ! 0 = 0"
  using valid_bump bump_eta_zero by simp

text \<open>
  C9, amended: on valid input every divisor without \<open>eta\<close> is nonzero: \<open>2.3 m_p\<close>,
  \<open>r^3\<close>, \<open>sqrt(2 pi) cs\<close>, the differences of neighbouring radii (the interpolation),
  \<open>dr\<close>, \<open>2 rhog Omega^2 r\<close>, \<open>3 alpha cs^2\<close>, \<open>SigmaGas\<close>, \<open>au\<close>, the denominator of
  \<open>tgrowth\<close> and \<open>tgrowth\<close> itself, \<open>massout[0]\<close> and \<open>1 + St^2\<close>. The divisors \<open>|eta|\<close>
  (line 76) and \<open>2 |eta| Omega r\<close> (line 54) are nonzero at a radius exactly when the two
  interface pressures of its cell differ.
\<close>

theorem divisors_nonzero:
  assumes "valid_input c p" "it < length (tgrid p)" "ir < length (rgrid p)"
  shows "2.3 * m_p c \<noteq> 0 \<and> rgrid p ! ir ^ 3 \<noteq> 0 \<and>
    sqrt (2 * pi) * cs c p ! ir \<noteq> 0 \<and>
    (\<forall>j. j + 1 < length (rgrid p) \<longrightarrow> rgrid p ! (j + 1) - rgrid p ! j \<noteq> 0) \<and>
    dr p ! ir \<noteq> 0 \<and>
    2 * rhog c p ! ir * (OmegaK c p ! ir) ^ 2 * rgrid p ! ir \<noteq> 0 \<and>
    3 * alpha p * (cs c p ! ir) ^ 2 \<noteq> 0 \<and>
    SigmaGas p ! ir \<noteq> 0 \<and> au c \<noteq> 0 \<and>
    (alpha p / 0.0001) powr 0.3333 * Z0 p ! ir * OmegaK c p ! ir *
      (rgrid p ! ir / au c) powr (- 0.3333) \<noteq> 0 \<and>
    tgrowth c p ! ir \<noteq> 0 \<and>
    massout (run c p) ! 0 ! ir \<noteq> 0 \<and>
    1 + (st (run c p) ! it ! ir) ^ 2 \<noteq> 0 \<and>
    (\<bar>eta c p ! ir\<bar> \<noteq> 0 \<longleftrightarrow> pgInt c p ! (ir + 1) \<noteq> pgInt c p ! ir) \<and>
    (2 * \<bar>eta c p ! ir\<bar> * OmegaK c p ! ir * rgrid p ! ir \<noteq> 0 \<longleftrightarrow>
      pgInt c p ! (ir + 1) \<noteq> pgInt c p ! ir)"
proof -
  note v = assms(1) and i = assms(3)
  note n = valid_nth [OF v i]
  note sc = valid_scalars [OF v]
  note sp = static_pos [OF v i]
  have d1: "2.3 * m_p c \<noteq> 0" using sc by simp
  have d2: "rgrid p ! ir ^ 3 \<noteq> 0" using n by simp
  have d3: "sqrt (2 * pi) * cs c p ! ir \<noteq> 0" using sp by simp
  have d4: "\<forall>j. j + 1 < length (rgrid p) \<longrightarrow> rgrid p ! (j + 1) - rgrid p ! j \<noteq> 0"
    using valid_rgrid_mono [OF v] by fastforce
  have d5: "dr p ! ir \<noteq> 0" using dr_pos [OF v i] by simp
  have d6: "2 * rhog c p ! ir * (OmegaK c p ! ir) ^ 2 * rgrid p ! ir \<noteq> 0"
    using sp n by simp
  have d7: "3 * alpha p * (cs c p ! ir) ^ 2 \<noteq> 0" using sp sc by simp
  have d8: "SigmaGas p ! ir \<noteq> 0" "au c \<noteq> 0" using n sc by simp_all
  have "0 < (alpha p / 0.0001) powr 0.3333" "0 < (rgrid p ! ir / au c) powr (- 0.3333)"
    using n sc by simp_all
  then have d9: "(alpha p / 0.0001) powr 0.3333 * Z0 p ! ir * OmegaK c p ! ir *
      (rgrid p ! ir / au c) powr (- 0.3333) \<noteq> 0"
    using sp by simp
  have d10: "tgrowth c p ! ir \<noteq> 0" using sp by simp
  have d11: "massout (run c p) ! 0 ! ir \<noteq> 0" using massout0_pos [OF v i] by simp
  have "0 < 1 + (st (run c p) ! it ! ir) ^ 2" by (simp add: add_pos_nonneg)
  then have d12: "1 + (st (run c p) ! it ! ir) ^ 2 \<noteq> 0" by simp
  have d13: "\<bar>eta c p ! ir\<bar> \<noteq> 0 \<longleftrightarrow> pgInt c p ! (ir + 1) \<noteq> pgInt c p ! ir"
    using eta_zero_iff [OF v i] by simp
  have d14: "2 * \<bar>eta c p ! ir\<bar> * OmegaK c p ! ir * rgrid p ! ir \<noteq> 0 \<longleftrightarrow>
      pgInt c p ! (ir + 1) \<noteq> pgInt c p ! ir"
    using eta_zero_iff [OF v i] sp(2) n(1) by simp
  show ?thesis
    using d1 d2 d3 d4 d5 d6 d7 d8 d9 d10 d11 d12 d13 d14 by blast
qed

theorem divisors_nonzero_witness:
  "valid_input astropy_cgs example_disk \<and>
   dr example_disk ! 1 \<noteq> 0 \<and> tgrowth astropy_cgs example_disk ! 1 \<noteq> 0 \<and>
   massout (run astropy_cgs example_disk) ! 0 ! 1 \<noteq> 0 \<and>
   (\<bar>eta astropy_cgs example_disk ! 1\<bar> \<noteq> 0 \<longleftrightarrow>
     pgInt astropy_cgs example_disk ! (1 + 1) \<noteq> pgInt astropy_cgs example_disk ! 1)"
proof -
  have h: "2 < length (tgrid example_disk)" "1 < length (rgrid example_disk)"
    by (simp_all add: example_disk_def)
  show ?thesis
    using valid_example divisors_nonzero [OF valid_example h] by blast
qed

section \<open>Errors\<close>

text \<open>
  C6, as claimed: an input that violates the preconditions (per-radius arrays of another
  length than the radial grid, a grid that is not strictly increasing, a non-positive
  surface density, temperature or alpha) makes the function fail with an invalid-input
  error. This fails for every kind of violation: the function returns its two fields with
  the time grid or the radial grid in decreasing order, with a negative temperature, with
  no gas at one radius, with alpha zero, and with a temperature array of one entry
  on a grid of two radii.
\<close>

theorem no_validation_counterexample:
  "\<not> sorted_wrt (<) (tgrid reversed_times) \<and>
   (\<exists>St Fl. pebble_predictor astropy_cgs reversed_times = Inr (St, Fl)) \<and>
   \<not> sorted_wrt (<) (rgrid reversed_radii) \<and>
   (\<exists>St Fl. pebble_predictor astropy_cgs reversed_radii = Inr (St, Fl)) \<and>
   \<not> list_all (\<lambda>x. 0 < x) (T negative_temperature) \<and>
   (\<exists>St Fl. pebble_predictor astropy_cgs negative_temperature = Inr (St, Fl)) \<and>
   \<not> list_all (\<lambda>x. 0 < x) (SigmaGas no_gas) \<and>
   (\<exists>St Fl. pebble_predictor astropy_cgs no_gas = Inr (St, Fl)) \<and>
   \<not> 0 < alpha zero_alpha \<and>
   (\<exists>St Fl. pebble_predictor astropy_cgs zero_alpha = Inr (St, Fl)) \<and>
   length (T isothermal_disk) \<noteq> length (rgrid isothermal_disk) \<and>
   (\<exists>St Fl. pebble_predictor astropy_cgs isothermal_disk = Inr (St, Fl))"
proof -
  have "\<exists>St Fl. pebble_predictor astropy_cgs p = Inr (St, Fl)"
    if "shapes_agree p" "2 \<le> length (rgrid p)" "1 \<le> length (tgrid p)" for p
    using pebble_predictor_returns [OF that, of astropy_cgs] by blast
  then have "\<exists>St Fl. pebble_predictor astropy_cgs reversed_times = Inr (St, Fl)"
    "\<exists>St Fl. pebble_predictor astropy_cgs reversed_radii = Inr (St, Fl)"
    "\<exists>St Fl. pebble_predictor astropy_cgs negative_temperature = Inr (St, Fl)"
    "\<exists>St Fl. pebble_predictor astropy_cgs no_gas = Inr (St, Fl)"
    "\<exists>St Fl. pebble_predictor astropy_cgs zero_alpha = Inr (St, Fl)"
    by (simp_all add: shapes_agree_def reversed_times_def reversed_radii_def
        negative_temperature_def no_gas_def zero_alpha_def example_disk_def)
  moreover have "\<not> sorted_wrt (<) (tgrid reversed_times)"
    "\<not> sorted_wrt (<) (rgrid reversed_radii)"
    "\<not> list_all (\<lambda>x. 0 < x) (T negative_temperature)"
    "\<not> list_all (\<lambda>x. 0 < x) (SigmaGas no_gas)"
    "\<not> 0 < alpha zero_alpha"
    "length (T isothermal_disk) \<noteq> length (rgrid isothermal_disk)"
    by (simp_all add: reversed_times_def reversed_radii_def negative_temperature_def
        no_gas_def zero_alpha_def isothermal_disk_def example_disk_def)
  ultimately show ?thesis
    using isothermal_returns by blast
qed

text \<open>
  C6, amended: the function validates nothing itself; it fails only where an index or a
  broadcast of numpy fails. It raises whenever the radial grid has fewer than two entries
  or the time grid is empty (IndexError when the per-radius arrays have the radial grid's
  length), and whenever a per-radius array has a length that is neither the radial
  grid's nor one. When the per-radius arrays have the radial grid's length, there are at
  least two radii and at least one time, it returns the two fields of \<open>M\<close> rows of \<open>N\<close>
  entries, whatever the order of the grids and the signs of the profiles and scalars.
\<close>

theorem pebble_predictor_outcomes:
  "(length (rgrid p) < 2 \<or> length (tgrid p) = 0 \<longrightarrow>
      (\<exists>e. pebble_predictor c p = Inl e) \<and>
      (shapes_agree p \<longrightarrow> pebble_predictor c p = Inl IndexError)) \<and>
    ((length (SigmaGas p) \<noteq> length (rgrid p) \<and> length (SigmaGas p) \<noteq> 1) \<or>
     (length (T p) \<noteq> length (rgrid p) \<and> length (T p) \<noteq> 1) \<or>
     (length (SigmaDust p) \<noteq> length (rgrid p) \<and> length (SigmaDust p) \<noteq> 1) \<longrightarrow>
      (\<exists>e. pebble_predictor c p = Inl e)) \<and>
    (shapes_agree p \<and> 2 \<le> length (rgrid p) \<and> 1 \<le> length (tgrid p) \<longrightarrow>
      (\<exists>St Fl. pebble_predictor c p = Inr (St, Fl) \<and>
        length St = length (tgrid p) \<and> length Fl = length (tgrid p) \<and>
        (\<forall>it < length (tgrid p).
          length (St ! it) = length (rgrid p) \<and> length (Fl ! it) = length (rgrid p))))"
proof -
  have a: "(\<exists>e. pebble_predictor c p = Inl e) \<and>
      (shapes_agree p \<longrightarrow> pebble_predictor c p = Inl IndexError)"
    if "length (rgrid p) < 2 \<or> length (tgrid p) = 0"
    using pebble_predictor_fails [OF that, of c] by blast
  have b: "\<exists>e. pebble_predictor c p = Inl e"
    if "(length (SigmaGas p) \<noteq> length (rgrid p) \<and> length (SigmaGas p) \<noteq> 1) \<or>
     (length (T p) \<noteq> length (rgrid p) \<and> length (T p) \<noteq> 1) \<or>
     (length (SigmaDust p) \<noteq> length (rgrid p) \<and> length (SigmaDust p) \<noteq> 1)"
  proof (cases "pebble_predictor c p")
    case (Inl e)
    then show ?thesis by blast
  next
    case (Inr r)
    then show ?thesis
      using pebble_predictor_Inr_lengths(3-5) [OF Inr] that by blast
  qed
  have d: "\<exists>St Fl. pebble_predictor c p = Inr (St, Fl) \<and>
        length St = length (tgrid p) \<and> length Fl = length (tgrid p) \<and>
        (\<forall>it < length (tgrid p).
          length (St ! it) = length (rgrid p) \<and> length (Fl ! it) = length (rgrid p))"
    if h: "shapes_agree p \<and> 2 \<le> length (rgrid p) \<and> 1 \<le> length (tgrid p)"
  proof -
    have "pebble_predictor c p = Inr (st (run c p), flux (run c p))"
      using h by (intro pebble_predictor_returns) simp_all
    moreover have "length (st (run c p) ! it) = length (rgrid p)"
      "length (flux (run c p) ! it) = length (rgrid p)" if "it < length (tgrid p)" for it
      using run_row_lengths [of p it c] h that by simp_all
    ultimately show ?thesis
      using run_lengths [of c p] by auto
  qed
  show ?thesis using a b d by blast
qed

theorem pebble_predictor_outcomes_witness:
  "shapes_agree reversed_times \<and> \<not> valid_input astropy_cgs reversed_times \<and>
   (\<exists>St Fl. pebble_predictor astropy_cgs reversed_times = Inr (St, Fl) \<and>
     length St = 3 \<and> length Fl = 3 \<and> length (St ! 1) = 3 \<and> length (Fl ! 1) = 3) \<and>
   shapes_agree single_radius \<and> length (rgrid single_radius) < 2 \<and>
   pebble_predictor astropy_cgs single_radius = Inl IndexError \<and>
   length (SigmaGas short_profile) \<noteq> length (rgrid short_profile) \<and>
   length (SigmaGas short_profile) \<noteq> 1 \<and>
   (\<exists>e. pebble_predictor astropy_cgs short_profile = Inl e)"
proof -
  have sh: "shapes_agree reversed_times" "shapes_agree single_radius"
    by (simp_all add: shapes_agree_def reversed_times_def single_radius_def example_disk_def)
  have nv: "\<not> valid_input astropy_cgs reversed_times"
    by (simp add: valid_input_def reversed_times_def example_disk_def)
  have len: "length (rgrid reversed_times) = 3" "length (tgrid reversed_times) = 3"
    "length (rgrid single_radius) = 1" "length (rgrid short_profile) = 3"
    "length (SigmaGas short_profile) = 2"
    by (simp_all add: reversed_times_def single_radius_def short_profile_def example_disk_def)
  have one: "(1::nat) < 3" by simp
  show ?thesis
    using sh nv one pebble_predictor_outcomes [of reversed_times astropy_cgs]
      pebble_predictor_outcomes [of single_radius astropy_cgs]
      pebble_predictor_outcomes [of short_profile astropy_cgs]
    unfolding len
    by (auto simp: len)
qed

end
